theory Spec2Isabelle
  imports Complex_Main "HOL-Library.AList" "HOL-Library.Sublist"
begin

section \<open>Values of the program\<close>

text \<open>
  The program handles whatever \<^verbatim>\<open>json.loads\<close> returns: \<^verbatim>\<open>None\<close>, booleans, integers,
  floats, strings, lists and dictionaries with string keys. A dictionary is an association
  list in insertion order, read with \<open>map_of\<close> and written with \<open>AList.update\<close>
  (an existing key keeps its place, a new key goes last, as in a Python \<^verbatim>\<open>dict\<close>).
  Finite floats are reals; strings are lists of 8-bit characters.
\<close>

datatype json =
    JNull
  | JBool bool
  | JInt int
  | JFloat real
  | JStr string
  | JArr "json list"
  | JObj "(string \<times> json) list"

text \<open>
  The exceptions the program raises or receives. \<open>HTTPError\<close> carries the status code,
  the reason and the response headers; \<open>URLError\<close> carries the rendered reason.
\<close>

datatype exc =
    HTTPError int string "(string \<times> string) list"
  | URLError string
  | JSONDecodeError
  | KeyError string
  | TypeError
  | AttributeError
  | ValueError
  | OtherException string

text \<open>
  What a call does: it returns a value, raises an exception, or ends the process with
  \<^verbatim>\<open>sys.exit(n)\<close> (\<^verbatim>\<open>SystemExit\<close>, which \<^verbatim>\<open>except Exception\<close> does not catch).
\<close>

datatype 'a outcome = Return 'a | Raise exc | Exit int

text \<open>Python truthiness, as \<^verbatim>\<open>if cached:\<close> tests it.\<close>

fun truthy :: "json \<Rightarrow> bool" where
  "truthy JNull = False"
| "truthy (JBool b) = b"
| "truthy (JInt i) = (i \<noteq> 0)"
| "truthy (JFloat r) = (r \<noteq> 0)"
| "truthy (JStr s) = (s \<noteq> [])"
| "truthy (JArr xs) = (xs \<noteq> [])"
| "truthy (JObj kv) = (kv \<noteq> [])"

text \<open>\<^verbatim>\<open>d.get(k, default)\<close>: only a dictionary has the method.\<close>

fun py_get :: "json \<Rightarrow> string \<Rightarrow> json \<Rightarrow> exc + json" where
  "py_get (JObj kv) k d = Inr (case map_of kv k of Some v \<Rightarrow> v | None \<Rightarrow> d)"
| "py_get _ k d = Inl AttributeError"

text \<open>
  \<^verbatim>\<open>d[k]\<close> with a string key: \<^verbatim>\<open>KeyError\<close> on a dictionary without the key,
  \<^verbatim>\<open>TypeError\<close> on every other value (a list or a string wants an integer index, the
  rest cannot be subscripted).
\<close>

fun py_item :: "json \<Rightarrow> string \<Rightarrow> exc + json" where
  "py_item (JObj kv) k = (case map_of kv k of Some v \<Rightarrow> Inr v | None \<Rightarrow> Inl (KeyError k))"
| "py_item _ k = Inl TypeError"

text \<open>\<^verbatim>\<open>d[k] = v\<close>.\<close>

fun py_setitem :: "json \<Rightarrow> string \<Rightarrow> json \<Rightarrow> exc + json" where
  "py_setitem (JObj kv) k v = Inr (JObj (AList.update k v kv))"
| "py_setitem _ k v = Inl TypeError"

text \<open>
  \<^verbatim>\<open>for x in v\<close>: a list gives its elements, a dictionary its keys, a string its
  characters; nothing else can be iterated.
\<close>

fun py_iter :: "json \<Rightarrow> exc + json list" where
  "py_iter (JArr xs) = Inr xs"
| "py_iter (JObj kv) = Inr (map (\<lambda>p. JStr (fst p)) kv)"
| "py_iter (JStr s) = Inr (map (\<lambda>c. JStr [c]) s)"
| "py_iter _ = Inl TypeError"

text \<open>
  \<^verbatim>\<open>x in allowed\<close> for a list of strings (what \<^verbatim>\<open>argparse\<close> builds for
  \<^verbatim>\<open>nargs='+'\<close>): list membership compares with \<^verbatim>\<open>==\<close>, and only a string equals a string.
\<close>

fun py_in :: "json \<Rightarrow> string list \<Rightarrow> bool" where
  "py_in (JStr s) allowed = (s \<in> set allowed)"
| "py_in _ allowed = False"

text \<open>\<^verbatim>\<open>xs[:n]\<close>: a negative bound counts from the end.\<close>

definition py_slice_to :: "'a list \<Rightarrow> int \<Rightarrow> 'a list" where
  "py_slice_to xs n =
     (if 0 \<le> n then take (nat n) xs else take (nat (int (length xs) + n)) xs)"

section \<open>The filter stage\<close>

text \<open>
  The filter dictionary \<^verbatim>\<open>{'types': args.types, 'repos': args.repos}\<close>: each value is
  \<^verbatim>\<open>None\<close> or a list of strings. \<^verbatim>\<open>filters.get(k)\<close> is \<^verbatim>\<open>None\<close> for a missing key too.
\<close>

type_synonym filters = "string \<rightharpoonup> string list option"

definition filters_get :: "filters \<Rightarrow> string \<Rightarrow> string list option" where
  "filters_get filters k = (case filters k of None \<Rightarrow> None | Some v \<Rightarrow> v)"

text \<open>\<^verbatim>\<open>not filters.get(k) or x in filters[k]\<close>.\<close>

definition filter_match :: "filters \<Rightarrow> string \<Rightarrow> json \<Rightarrow> bool" where
  "filter_match filters k x =
     (case filters_get filters k of
        None \<Rightarrow> True
      | Some allowed \<Rightarrow> allowed = [] \<or> py_in x allowed)"

text \<open>The loop of \<^verbatim>\<open>filter_activities\<close>, with the list \<^verbatim>\<open>filtered\<close> it appends to.\<close>

fun filter_loop :: "filters \<Rightarrow> json list \<Rightarrow> json list \<Rightarrow> exc + json list" where
  "filter_loop filters filtered [] = Inr filtered"
| "filter_loop filters filtered (activity # rest) =
     (case py_get activity ''type'' JNull of
        Inl e \<Rightarrow> Inl e
      | Inr event_type \<Rightarrow>
         (case py_get activity ''repo'' (JObj []) of
            Inl e \<Rightarrow> Inl e
          | Inr r \<Rightarrow>
             (case py_get r ''name'' (JStr '''') of
                Inl e \<Rightarrow> Inl e
              | Inr repo \<Rightarrow>
                 (let type_match = filter_match filters ''types'' event_type;
                      repo_match = filter_match filters ''repos'' repo
                  in if type_match \<and> repo_match
                     then filter_loop filters (filtered @ [activity]) rest
                     else filter_loop filters filtered rest))))"

definition filter_activities :: "json \<Rightarrow> filters \<Rightarrow> exc + json list" where
  "filter_activities activities filters =
     (case py_iter activities of
        Inl e \<Rightarrow> Inl e
      | Inr acts \<Rightarrow> filter_loop filters [] acts)"

text \<open>
  Lines 157 to 160 of \<^verbatim>\<open>main\<close>: the filter, then the slice \<^verbatim>\<open>[:args.limit]\<close>.
  \<^verbatim>\<open>--limit\<close> is parsed with \<^verbatim>\<open>type=int\<close>, so any integer arrives here.
\<close>

definition main_filtered ::
  "json \<Rightarrow> string list option \<Rightarrow> string list option \<Rightarrow> int \<Rightarrow> exc + json list" where
  "main_filtered activities types repos limit =
     (case filter_activities activities [''types'' \<mapsto> types, ''repos'' \<mapsto> repos] of
        Inl e \<Rightarrow> Inl e
      | Inr filtered \<Rightarrow> Inr (py_slice_to filtered limit))"

subsection \<open>The filter contract in the words of the specification\<close>

text \<open>
  An event of the data model has a string \<open>type\<close> and a string \<open>repo.name\<close>.
  \<open>spec_keep\<close> is the rule of section 4.3: keep the event iff (the type set is absent or
  empty, or the event's type is in it) and (the repo set is absent or empty, or the
  event's repo name is in it).
\<close>

definition event_type :: "json \<Rightarrow> string option" where
  "event_type e =
     (case e of
        JObj kv \<Rightarrow> (case map_of kv ''type'' of Some (JStr t) \<Rightarrow> Some t | _ \<Rightarrow> None)
      | _ \<Rightarrow> None)"

definition event_repo_name :: "json \<Rightarrow> string option" where
  "event_repo_name e =
     (case e of
        JObj kv \<Rightarrow>
          (case map_of kv ''repo'' of
             Some (JObj rkv) \<Rightarrow> (case map_of rkv ''name'' of Some (JStr n) \<Rightarrow> Some n | _ \<Rightarrow> None)
           | _ \<Rightarrow> None)
      | _ \<Rightarrow> None)"

definition is_event :: "json \<Rightarrow> bool" where
  "is_event e = (event_type e \<noteq> None \<and> event_repo_name e \<noteq> None)"

definition allows :: "string list option \<Rightarrow> string option \<Rightarrow> bool" where
  "allows allowed x =
     (case allowed of
        None \<Rightarrow> True
      | Some xs \<Rightarrow> xs = [] \<or> (case x of None \<Rightarrow> False | Some s \<Rightarrow> s \<in> set xs))"

definition spec_keep :: "string list option \<Rightarrow> string list option \<Rightarrow> json \<Rightarrow> bool" where
  "spec_keep types repos e = (allows types (event_type e) \<and> allows repos (event_repo_name e))"

section \<open>The cache store\<close>

text \<open>
  The table \<^verbatim>\<open>activities (username, data, timestamp)\<close> is a list of rows in rowid order.
  The \<^verbatim>\<open>data\<close> column holds \<^verbatim>\<open>json.dumps\<close> of the list and is read back with
  \<^verbatim>\<open>json.loads\<close>; the row keeps the value itself. SQLite's \<^verbatim>\<open>datetime\<close> has
  one-second resolution: a timestamp is a number of seconds, and \<^verbatim>\<open>'-10 minutes'\<close> is 600.
\<close>

record row =
  row_username :: string
  row_data :: json
  row_timestamp :: int

text \<open>
  \<^verbatim>\<open>_get_cached_activities\<close>: the first row of the user that is not older than ten
  minutes, or \<^verbatim>\<open>None\<close>.
\<close>

definition get_cached_activities :: "row list \<Rightarrow> int \<Rightarrow> string \<Rightarrow> json" where
  "get_cached_activities tbl now username =
     (case filter (\<lambda>r. row_username r = username \<and> row_timestamp r \<ge> now - 600) tbl of
        [] \<Rightarrow> JNull
      | result # _ \<Rightarrow> row_data result)"

text \<open>\<^verbatim>\<open>_cache_activities\<close>: \<^verbatim>\<open>DELETE\<close> the user's rows, then \<^verbatim>\<open>INSERT\<close> the new one.\<close>

definition cache_activities :: "row list \<Rightarrow> int \<Rightarrow> string \<Rightarrow> json \<Rightarrow> row list" where
  "cache_activities tbl now username d =
     filter (\<lambda>r. row_username r \<noteq> username) tbl
       @ [\<lparr>row_username = username, row_data = d, row_timestamp = now\<rparr>]"

section \<open>Library functions and the world\<close>

text \<open>
  What the program takes from Python's library and does not define itself:
  \<^verbatim>\<open>str(e)\<close> of an exception, the rendering of a value that is not a string inside an
  f-string, \<^verbatim>\<open>int(s)\<close>, \<^verbatim>\<open>str(datetime.fromtimestamp(n))\<close> (local time),
  \<^verbatim>\<open>json.dumps(v, indent=2)\<close>, \<^verbatim>\<open>yaml.dump(v, allow_unicode=True)\<close>, and what the
  platform's C library makes of \<^verbatim>\<open>%Y\<close> for a year below 1000 (glibc writes 999 for the
  year 999, other libraries 0999).
\<close>

record pylib =
  str_exc :: "exc \<Rightarrow> string"
  str_json :: "json \<Rightarrow> string"
  py_int :: "string \<Rightarrow> exc + int"
  fromtimestamp :: "int \<Rightarrow> exc + string"
  json_dumps :: "json \<Rightarrow> string"
  yaml_dump :: "json \<Rightarrow> exc + string"
  year_below_1000 :: "nat \<Rightarrow> string"

text \<open>
  A request is its URL and headers. The network is a function from the request to what
  \<^verbatim>\<open>json.loads(urlopen(req).read().decode())\<close> gives: the parsed body, or the exception
  raised on the way.
\<close>

record request =
  req_url :: string
  req_headers :: "(string \<times> string) list"

type_synonym network = "request \<Rightarrow> exc + json"

text \<open>
  The world the program acts on: the cache table, the requests sent so far, and the
  texts printed so far (one entry per \<^verbatim>\<open>print\<close>).
\<close>

record world =
  w_table :: "row list"
  w_requests :: "request list"
  w_stdout :: "string list"

definition print :: "world \<Rightarrow> string \<Rightarrow> world" where
  "print w s = w\<lparr>w_stdout := w_stdout w @ [s]\<rparr>"

definition send :: "world \<Rightarrow> request \<Rightarrow> world" where
  "send w req = w\<lparr>w_requests := w_requests w @ [req]\<rparr>"

text \<open>A string inside an f-string is itself; every other value is rendered by the library.\<close>

definition py_format :: "pylib \<Rightarrow> json \<Rightarrow> string" where
  "py_format lib v = (case v of JStr s \<Rightarrow> s | _ \<Rightarrow> str_json lib v)"

text \<open>Decimal digits and the decimal rendering of an integer (\<^verbatim>\<open>{e.code}\<close>).\<close>

definition digits :: string where
  "digits = ''0123456789''"

definition digit_char :: "nat \<Rightarrow> char" where
  "digit_char n = digits ! (n mod 10)"

definition digit_val :: "char \<Rightarrow> nat" where
  "digit_val c = of_char c - 48"

fun str_nat :: "nat \<Rightarrow> string" where
  "str_nat n = (if n < 10 then [digit_char n] else str_nat (n div 10) @ [digit_char (n mod 10)])"

declare str_nat.simps [simp del]

definition str_int :: "int \<Rightarrow> string" where
  "str_int i = (if i < 0 then CHR ''-'' # str_nat (nat (- i)) else str_nat (nat i))"

text \<open>ASCII lower case, for header names and for the case-insensitive match of \<^verbatim>\<open>strptime\<close>.\<close>

definition lower :: "char \<Rightarrow> char" where
  "lower c =
     (case map_of (zip ''ABCDEFGHIJKLMNOPQRSTUVWXYZ'' ''abcdefghijklmnopqrstuvwxyz'') c of
        None \<Rightarrow> c
      | Some l \<Rightarrow> l)"

text \<open>\<^verbatim>\<open>e.headers.get(name)\<close>: header names compare without case; the first one wins.\<close>

fun header_get :: "(string \<times> string) list \<Rightarrow> string \<Rightarrow> string option" where
  "header_get [] name = None"
| "header_get ((n, v) # hs) name =
     (if map lower n = map lower name then Some v else header_get hs name)"

section \<open>The activity fetcher\<close>

text \<open>The request of \<^verbatim>\<open>fetch_activities\<close>: \<^verbatim>\<open>if token:\<close> skips \<^verbatim>\<open>None\<close> and the empty string.\<close>

definition events_request :: "string \<Rightarrow> string option \<Rightarrow> request" where
  "events_request username token =
     (let url = ''https://api.github.com/users/'' @ username @ ''/events'';
          headers = [(''User-Agent'', ''GitHub-Activity-CLI/2.0'')]
            @ (case token of
                 None \<Rightarrow> []
               | Some t \<Rightarrow> if t = [] then [] else [(''Authorization'', ''token '' @ t)])
      in \<lparr>req_url = url, req_headers = headers\<rparr>)"

text \<open>
  \<^verbatim>\<open>fetch_activities\<close>. \<open>now\<close> is the clock at the cache read, \<open>now'\<close> at the cache
  write. An exception other than \<^verbatim>\<open>HTTPError\<close> and \<^verbatim>\<open>URLError\<close> leaves the function,
  and so does one raised inside the \<^verbatim>\<open>except HTTPError\<close> handler
  (\<^verbatim>\<open>int(None)\<close> is a \<^verbatim>\<open>TypeError\<close>).
\<close>

definition fetch_activities ::
  "pylib \<Rightarrow> network \<Rightarrow> int \<Rightarrow> int \<Rightarrow> world \<Rightarrow> string \<Rightarrow> string option \<Rightarrow> bool
     \<Rightarrow> json outcome \<times> world" where
  "fetch_activities lib urlopen now now' w username token use_cache =
     (let cached = (if use_cache then get_cached_activities (w_table w) now username else JNull)
      in if use_cache \<and> truthy cached then (Return cached, w)
         else
          (let req = events_request username token;
               w1 = send w req
           in case urlopen req of
                Inr d \<Rightarrow>
                  (Return d,
                   if use_cache
                   then w1\<lparr>w_table := cache_activities (w_table w1) now' username d\<rparr>
                   else w1)
              | Inl (HTTPError code reason hdrs) \<Rightarrow>
                  (let w2 = print w1 (''API Error: '' @ str_int code @ '' '' @ reason)
                   in if header_get hdrs ''X-RateLimit-Remaining'' = Some ''0''
                      then (case header_get hdrs ''X-RateLimit-Reset'' of
                              None \<Rightarrow> (Raise TypeError, w2)
                            | Some s \<Rightarrow>
                               (case py_int lib s of
                                  Inl e \<Rightarrow> (Raise e, w2)
                                | Inr n \<Rightarrow>
                                   (case fromtimestamp lib n of
                                      Inl e \<Rightarrow> (Raise e, w2)
                                    | Inr reset_time \<Rightarrow>
                                       (Exit 1,
                                        print w2 (''Rate limit exceeded. Reset at '' @ reset_time)))))
                      else (Exit 1, w2))
              | Inl (URLError reason) \<Rightarrow> (Exit 1, print w1 (''Connection Error: '' @ reason))
              | Inl e \<Rightarrow> (Raise e, w1)))"

section \<open>The enrichment stage\<close>

text \<open>
  \<^verbatim>\<open>enrich_activity\<close>. The URL is built before the \<^verbatim>\<open>try\<close>, so a missing
  \<^verbatim>\<open>repo\<close> or \<^verbatim>\<open>name\<close> raises; inside the \<^verbatim>\<open>try\<close> every exception becomes the
  \<^verbatim>\<open>error\<close> field.
\<close>

definition repo_details :: "json \<Rightarrow> exc + json" where
  "repo_details repo_data =
     (case py_get repo_data ''stargazers_count'' JNull of
        Inl e \<Rightarrow> Inl e
      | Inr stars \<Rightarrow>
         (case py_get repo_data ''forks_count'' JNull of
            Inl e \<Rightarrow> Inl e
          | Inr forks \<Rightarrow>
             (case py_get repo_data ''description'' JNull of
                Inl e \<Rightarrow> Inl e
              | Inr description \<Rightarrow>
                  Inr (JObj [(''stars'', stars), (''forks'', forks),
                             (''description'', description)]))))"

definition repo_request :: "pylib \<Rightarrow> json \<Rightarrow> request" where
  "repo_request lib name =
     \<lparr>req_url = ''https://api.github.com/repos/'' @ py_format lib name,
      req_headers = [(''User-Agent'', ''GitHub-Activity-CLI'')]\<rparr>"

definition enrich_activity :: "pylib \<Rightarrow> network \<Rightarrow> world \<Rightarrow> json \<Rightarrow> json outcome \<times> world" where
  "enrich_activity lib urlopen w activity =
     (case py_item activity ''repo'' of
        Inl e \<Rightarrow> (Raise e, w)
      | Inr r \<Rightarrow>
         (case py_item r ''name'' of
            Inl e \<Rightarrow> (Raise e, w)
          | Inr name \<Rightarrow>
             (let req = repo_request lib name;
                  w1 = send w req;
                  details =
                    (case urlopen req of
                       Inl e \<Rightarrow> JObj [(''error'', JStr (str_exc lib e))]
                     | Inr repo_data \<Rightarrow>
                        (case repo_details repo_data of
                           Inl e \<Rightarrow> JObj [(''error'', JStr (str_exc lib e))]
                         | Inr d \<Rightarrow> d))
              in case py_setitem activity ''repo_details'' details of
                   Inl e \<Rightarrow> (Raise e, w1)
                 | Inr activity' \<Rightarrow> (Return activity', w1))))"

text \<open>\<^verbatim>\<open>[github.enrich_activity(a) for a in filtered]\<close>: the first exception ends it.\<close>

fun enrich_all :: "pylib \<Rightarrow> network \<Rightarrow> world \<Rightarrow> json list \<Rightarrow> json list outcome \<times> world" where
  "enrich_all lib urlopen w [] = (Return [], w)"
| "enrich_all lib urlopen w (a # rest) =
     (case enrich_activity lib urlopen w a of
        (Raise e, w1) \<Rightarrow> (Raise e, w1)
      | (Exit n, w1) \<Rightarrow> (Exit n, w1)
      | (Return a', w1) \<Rightarrow>
         (case enrich_all lib urlopen w1 rest of
            (Raise e, w2) \<Rightarrow> (Raise e, w2)
          | (Exit n, w2) \<Rightarrow> (Exit n, w2)
          | (Return rest', w2) \<Rightarrow> (Return (a' # rest'), w2)))"

section \<open>The formatter\<close>

text \<open>\<^verbatim>\<open>sep.join(xs)\<close>.\<close>

fun join :: "string \<Rightarrow> string list \<Rightarrow> string" where
  "join sep [] = []"
| "join sep [x] = x"
| "join sep (x # y # zs) = x @ sep @ join sep (y # zs)"

subsection \<open>Text mode\<close>

text \<open>The dictionary \<^verbatim>\<open>colors\<close> of \<^verbatim>\<open>_format_text\<close>; \<^verbatim>\<open>\033\<close> is the character 27.\<close>

definition colors :: "(string \<times> string) list" where
  "colors =
     [(''PushEvent'', CHR 0x1B # ''[92m''),
      (''PullRequestEvent'', CHR 0x1B # ''[94m''),
      (''IssuesEvent'', CHR 0x1B # ''[93m''),
      (''reset'', CHR 0x1B # ''[0m'')]"

text \<open>
  \<^verbatim>\<open>x in colors\<close>: a list or a dictionary cannot be hashed (\<^verbatim>\<open>TypeError\<close>); a
  string is looked up; no other value equals a string key.
\<close>

fun in_colors :: "json \<Rightarrow> exc + bool" where
  "in_colors (JStr s) = Inr (map_of colors s \<noteq> None)"
| "in_colors (JArr xs) = Inl TypeError"
| "in_colors (JObj kv) = Inl TypeError"
| "in_colors _ = Inr False"

text \<open>\<^verbatim>\<open>colors[k]\<close> for a string key.\<close>

definition colors_item :: "string \<Rightarrow> string" where
  "colors_item k = (case map_of colors k of Some v \<Rightarrow> v | None \<Rightarrow> [])"

text \<open>
  The line of one activity in \<^verbatim>\<open>_format_text\<close>. When the type is a key of
  \<^verbatim>\<open>colors\<close> it is a string, and \<^verbatim>\<open>colors[act['type']]\<close> is the entry of that string.
\<close>

definition text_line :: "pylib \<Rightarrow> bool \<Rightarrow> json \<Rightarrow> exc + string" where
  "text_line lib color act =
     (case py_item act ''type'' of
        Inl e \<Rightarrow> Inl e
      | Inr t \<Rightarrow>
         (case py_get act ''message'' (JStr '''') of
            Inl e \<Rightarrow> Inl e
          | Inr msg \<Rightarrow>
             (let line = ''- '' @ py_format lib t @ '': '' @ py_format lib msg
              in if color
                 then (case in_colors t of
                         Inl e \<Rightarrow> Inl e
                       | Inr True \<Rightarrow>
                           Inr (colors_item (py_format lib t) @ line @ colors_item ''reset'')
                       | Inr False \<Rightarrow> Inr line)
                 else Inr line)))"

fun format_text_loop :: "pylib \<Rightarrow> bool \<Rightarrow> string list \<Rightarrow> json list \<Rightarrow> exc + string list" where
  "format_text_loop lib color output [] = Inr output"
| "format_text_loop lib color output (act # rest) =
     (case text_line lib color act of
        Inl e \<Rightarrow> Inl e
      | Inr line \<Rightarrow> format_text_loop lib color (output @ [line]) rest)"

definition format_text :: "pylib \<Rightarrow> json list \<Rightarrow> bool \<Rightarrow> exc + string" where
  "format_text lib activities color =
     (case format_text_loop lib color [] activities of
        Inl e \<Rightarrow> Inl e
      | Inr output \<Rightarrow> Inr (join [CHR 0x0A] output))"

subsection \<open>\<^verbatim>\<open>datetime.strptime\<close> and \<^verbatim>\<open>strftime\<close> for the two formats of the table\<close>

text \<open>
  The strings of this theory are lists of 8-bit characters (Latin-1). Among these the
  decimal digits are exactly 0 to 9, which is what the classes below list; a Python string
  with decimal digits of another script, which \<^verbatim>\<open>strptime\<close> reads as digits too, has
  no counterpart here.

  \<^verbatim>\<open>strptime(s, "%Y-%m-%dT%H:%M:%SZ")\<close> compiles the format into a regular expression,
  matched without case at the start of \<open>s\<close>: each directive is a group of alternatives
  tried in order, every other character stands for itself. The groups, as CPython's
  \<^verbatim>\<open>_strptime.TimeRE\<close> has them:
  \<^verbatim>\<open>%Y = \d\d\d\d\<close>, \<^verbatim>\<open>%m = 1[0-2]|0[1-9]|[1-9]\<close>,
  \<^verbatim>\<open>%d = 3[0-1]|[1-2]\d|0[1-9]|[1-9]| [1-9]\<close>, \<^verbatim>\<open>%H = 2[0-3]|[0-1]\d|\d\<close>,
  \<^verbatim>\<open>%M = [0-5]\d|\d\<close>, \<^verbatim>\<open>%S = 6[0-1]|[0-5]\d|\d\<close>.
  An alternative is a list of character classes; a class is the list of its characters.
\<close>

datatype item = Lit char | Group "string list list"

definition fmt_Y :: "string list list" where
  "fmt_Y = [[digits, digits, digits, digits]]"

definition fmt_m :: "string list list" where
  "fmt_m = [[''1'', ''012''], [''0'', ''123456789''], [''123456789'']]"

definition fmt_d :: "string list list" where
  "fmt_d = [[''3'', ''01''], [''12'', digits], [''0'', ''123456789''], [''123456789''],
            ['' '', ''123456789'']]"

definition fmt_H :: "string list list" where
  "fmt_H = [[''2'', ''0123''], [''01'', digits], [digits]]"

definition fmt_M :: "string list list" where
  "fmt_M = [[''012345'', digits], [digits]]"

definition fmt_S :: "string list list" where
  "fmt_S = [[''6'', ''01''], [''012345'', digits], [digits]]"

definition table_format :: "item list" where
  "table_format =
     [Group fmt_Y, Lit (CHR ''-''), Group fmt_m, Lit (CHR ''-''), Group fmt_d, Lit (CHR ''T''),
      Group fmt_H, Lit (CHR '':''), Group fmt_M, Lit (CHR '':''), Group fmt_S, Lit (CHR ''Z'')]"

text \<open>One alternative at the start of a string: the text it matched and the rest.\<close>

fun match_classes :: "string list \<Rightarrow> string \<Rightarrow> (string \<times> string) option" where
  "match_classes [] s = Some ([], s)"
| "match_classes (c # cs) [] = None"
| "match_classes (c # cs) (x # xs) =
     (if x \<in> set c
      then (case match_classes cs xs of None \<Rightarrow> None | Some (m, r) \<Rightarrow> Some (x # m, r))
      else None)"

text \<open>
  All the ways the expression matches at the start of a string, in the order a
  backtracking matcher finds them: the groups' texts and the unmatched rest.
\<close>

fun re_matches :: "item list \<Rightarrow> string \<Rightarrow> (string list \<times> string) list" where
  "re_matches [] s = [([], s)]"
| "re_matches (Lit c # items) s =
     (case s of
        [] \<Rightarrow> []
      | x # xs \<Rightarrow> if lower x = lower c then re_matches items xs else [])"
| "re_matches (Group alts # items) s =
     concat (map (\<lambda>alt. case match_classes alt s of
                          None \<Rightarrow> []
                        | Some (m, r) \<Rightarrow> map (\<lambda>(gs, rest). (m # gs, rest)) (re_matches items r))
                 alts)"

text \<open>\<^verbatim>\<open>int(g)\<close> of a group's text: decimal digits, after the blank \<^verbatim>\<open>%d\<close> allows.\<close>

definition group_int :: "string \<Rightarrow> nat" where
  "group_int g = foldl (\<lambda>n c. 10 * n + digit_val c) 0 (filter (\<lambda>c. c \<noteq> CHR '' '') g)"

record datetime =
  dt_year :: nat
  dt_month :: nat
  dt_day :: nat
  dt_hour :: nat
  dt_minute :: nat
  dt_second :: nat

definition is_leap :: "nat \<Rightarrow> bool" where
  "is_leap y = (y mod 4 = 0 \<and> (y mod 100 \<noteq> 0 \<or> y mod 400 = 0))"

definition days_in_month :: "nat \<Rightarrow> nat \<Rightarrow> nat" where
  "days_in_month y m =
     (if m = 2 then (if is_leap y then 29 else 28)
      else if m \<in> {4, 6, 9, 11} then 30 else 31)"

text \<open>
  \<^verbatim>\<open>datetime.strptime\<close> with the table's format: \<^verbatim>\<open>ValueError\<close> when the expression
  does not match, when text remains after the match, and when the fields are no
  \<^verbatim>\<open>datetime\<close> (year 0, a day the month does not have, second 60 or 61).
\<close>

definition strptime :: "string \<Rightarrow> exc + datetime" where
  "strptime s =
     (case re_matches table_format s of
        [] \<Rightarrow> Inl ValueError
      | (gs, rest) # _ \<Rightarrow>
          if rest \<noteq> [] then Inl ValueError
          else (case map group_int gs of
                  [y, m, d, H, M, S] \<Rightarrow>
                    if 1 \<le> y \<and> d \<le> days_in_month y m \<and> S \<le> 59
                    then Inr \<lparr>dt_year = y, dt_month = m, dt_day = d,
                              dt_hour = H, dt_minute = M, dt_second = S\<rparr>
                    else Inl ValueError
                | _ \<Rightarrow> Inl ValueError))"

text \<open>
  \<^verbatim>\<open>strftime("%Y-%m-%d %H:%M")\<close>: month, day, hour and minute are two digits. A year
  from 1000 on is its four digits; a year below 1000 is what the platform's C library
  writes.
\<close>

definition pad2 :: "nat \<Rightarrow> string" where
  "pad2 n = [digit_char (n div 10), digit_char n]"

definition pad4 :: "nat \<Rightarrow> string" where
  "pad4 n = [digit_char (n div 1000), digit_char (n div 100), digit_char (n div 10), digit_char n]"

definition fmt_year :: "pylib \<Rightarrow> nat \<Rightarrow> string" where
  "fmt_year lib y = (if 1000 \<le> y then pad4 y else year_below_1000 lib y)"

definition strftime :: "pylib \<Rightarrow> datetime \<Rightarrow> string" where
  "strftime lib dt =
     fmt_year lib (dt_year dt) @ ''-'' @ pad2 (dt_month dt) @ ''-'' @ pad2 (dt_day dt) @ '' ''
       @ pad2 (dt_hour dt) @ '':'' @ pad2 (dt_minute dt)"

subsection \<open>Table mode\<close>

text \<open>
  The date cell of one activity: \<^verbatim>\<open>act['created_at']\<close>, parsed and rendered again.
  \<^verbatim>\<open>strptime\<close> raises \<^verbatim>\<open>TypeError\<close> on a value that is not a string.
\<close>

definition date_cell :: "pylib \<Rightarrow> json \<Rightarrow> exc + string" where
  "date_cell lib act =
     (case py_item act ''created_at'' of
        Inl e \<Rightarrow> Inl e
      | Inr (JStr s) \<Rightarrow> (case strptime s of Inl e \<Rightarrow> Inl e | Inr dt \<Rightarrow> Inr (strftime lib dt))
      | Inr _ \<Rightarrow> Inl TypeError)"

text \<open>The row of one activity in \<^verbatim>\<open>_format_table\<close>.\<close>

definition table_row :: "pylib \<Rightarrow> json \<Rightarrow> exc + string" where
  "table_row lib act =
     (case date_cell lib act of
        Inl e \<Rightarrow> Inl e
      | Inr date \<Rightarrow>
         (case py_item act ''type'' of
            Inl e \<Rightarrow> Inl e
          | Inr t \<Rightarrow>
             (case py_item act ''repo'' of
                Inl e \<Rightarrow> Inl e
              | Inr r \<Rightarrow>
                 (case py_item r ''name'' of
                    Inl e \<Rightarrow> Inl e
                  | Inr name \<Rightarrow>
                     (case py_get act ''message'' (JStr '''') of
                        Inl e \<Rightarrow> Inl e
                      | Inr msg \<Rightarrow>
                          Inr (''| '' @ date @ '' | '' @ py_format lib t @ '' | ''
                                 @ py_format lib name @ '' | '' @ py_format lib msg @ '' |''))))))"

fun format_table_loop :: "pylib \<Rightarrow> string list \<Rightarrow> json list \<Rightarrow> exc + string list" where
  "format_table_loop lib tbl [] = Inr tbl"
| "format_table_loop lib tbl (act # rest) =
     (case table_row lib act of
        Inl e \<Rightarrow> Inl e
      | Inr r \<Rightarrow> format_table_loop lib (tbl @ [r]) rest)"

definition table_header :: "string list" where
  "table_header =
     [CHR 0x0A # ''| Date | Type | Repository | Details |'',
      ''|------|------|------------|---------|'']"

definition format_table :: "pylib \<Rightarrow> json list \<Rightarrow> bool \<Rightarrow> exc + string" where
  "format_table lib activities color =
     (case format_table_loop lib table_header activities of
        Inl e \<Rightarrow> Inl e
      | Inr tbl \<Rightarrow> Inr (join [CHR 0x0A] tbl))"

definition format_output :: "pylib \<Rightarrow> json list \<Rightarrow> string \<Rightarrow> bool \<Rightarrow> exc + string" where
  "format_output lib activities output_format color =
     (if output_format = ''json'' then Inr (json_dumps lib (JArr activities))
      else if output_format = ''yaml'' then yaml_dump lib (JArr activities)
      else if output_format = ''table'' then format_table lib activities color
      else format_text lib activities color)"

section \<open>The program\<close>

text \<open>The parsed command line.\<close>

record args =
  arg_username :: string
  arg_limit :: int
  arg_token :: "string option"
  arg_format :: string
  arg_types :: "string list option"
  arg_repos :: "string list option"
  arg_no_cache :: bool
  arg_color :: bool
  arg_enrich :: bool

text \<open>The two handlers of \<^verbatim>\<open>main\<close>: both print one line and exit with 1.\<close>

definition handle :: "pylib \<Rightarrow> exc \<Rightarrow> world \<Rightarrow> int \<times> world" where
  "handle lib e w =
     (if e = JSONDecodeError then (1, print w ''Error processing API response'')
      else (1, print w (''Unexpected error: '' @ str_exc lib e)))"

text \<open>
  \<^verbatim>\<open>main\<close> after the arguments are parsed: the exit code of the process and the world
  it leaves. \<^verbatim>\<open>sys.exit\<close> inside \<^verbatim>\<open>fetch_activities\<close> passes both handlers.
\<close>

definition main :: "pylib \<Rightarrow> network \<Rightarrow> int \<Rightarrow> int \<Rightarrow> world \<Rightarrow> args \<Rightarrow> int \<times> world" where
  "main lib urlopen now now' w a =
     (case fetch_activities lib urlopen now now' w (arg_username a) (arg_token a) (arg_no_cache a) of
        (Exit n, w1) \<Rightarrow> (n, w1)
      | (Raise e, w1) \<Rightarrow> handle lib e w1
      | (Return activities, w1) \<Rightarrow>
         (case main_filtered activities (arg_types a) (arg_repos a) (arg_limit a) of
            Inl e \<Rightarrow> handle lib e w1
          | Inr filtered \<Rightarrow>
             (case (if arg_enrich a then enrich_all lib urlopen w1 filtered
                    else (Return filtered, w1)) of
                (Exit n, w2) \<Rightarrow> (n, w2)
              | (Raise e, w2) \<Rightarrow> handle lib e w2
              | (Return enriched, w2) \<Rightarrow>
                 (case format_output lib enriched (arg_format a) (arg_color a) of
                    Inl e \<Rightarrow> handle lib e w2
                  | Inr output \<Rightarrow> (0, print w2 output)))))"

section \<open>Predicates of the statements\<close>

text \<open>
  What \<^verbatim>\<open>filter_activities\<close> reads from an activity: \<^verbatim>\<open>activity.get('type')\<close>
  and \<^verbatim>\<open>activity.get('repo', {}).get('name', '')\<close>. It can read them when the activity
  is a dictionary whose \<open>repo\<close>, if present, is a dictionary (\<open>filterable\<close>).
\<close>

definition has_key :: "json \<Rightarrow> string \<Rightarrow> bool" where
  "has_key e k = (case e of JObj kv \<Rightarrow> map_of kv k \<noteq> None | _ \<Rightarrow> False)"

definition filterable :: "json \<Rightarrow> bool" where
  "filterable e =
     (case e of
        JObj kv \<Rightarrow>
          (case map_of kv ''repo'' of
             None \<Rightarrow> True
           | Some (JObj rkv) \<Rightarrow> True
           | Some _ \<Rightarrow> False)
      | _ \<Rightarrow> False)"

definition seen_type :: "json \<Rightarrow> json" where
  "seen_type e =
     (case e of
        JObj kv \<Rightarrow> (case map_of kv ''type'' of None \<Rightarrow> JNull | Some v \<Rightarrow> v)
      | _ \<Rightarrow> JNull)"

definition seen_repo :: "json \<Rightarrow> json" where
  "seen_repo e =
     (case e of
        JObj kv \<Rightarrow>
          (case map_of kv ''repo'' of
             Some (JObj rkv) \<Rightarrow> (case map_of rkv ''name'' of None \<Rightarrow> JStr '''' | Some v \<Rightarrow> v)
           | _ \<Rightarrow> JStr '''')
      | _ \<Rightarrow> JStr '''')"

definition lacks_repo_name :: "json \<Rightarrow> bool" where
  "lacks_repo_name e =
     (case e of
        JObj kv \<Rightarrow>
          (case map_of kv ''repo'' of
             None \<Rightarrow> True
           | Some (JObj rkv) \<Rightarrow> map_of rkv ''name'' = None
           | Some _ \<Rightarrow> False)
      | _ \<Rightarrow> False)"

definition passes :: "filters \<Rightarrow> json \<Rightarrow> bool" where
  "passes filters e =
     (filter_match filters ''types'' (seen_type e) \<and> filter_match filters ''repos'' (seen_repo e))"

text \<open>\<^verbatim>\<open>activity['repo']['name']\<close> can be read: the activity and its \<open>repo\<close> are dictionaries.\<close>

definition has_repo_name :: "json \<Rightarrow> bool" where
  "has_repo_name e =
     (case e of
        JObj kv \<Rightarrow>
          (case map_of kv ''repo'' of
             Some (JObj rkv) \<Rightarrow> map_of rkv ''name'' \<noteq> None
           | _ \<Rightarrow> False)
      | _ \<Rightarrow> False)"

subsection \<open>A library, a world and a command line for the examples\<close>

definition example_lib :: pylib where
  "example_lib =
     \<lparr>str_exc = (\<lambda>e. case e of KeyError k \<Rightarrow> [CHR 0x27] @ k @ [CHR 0x27] | _ \<Rightarrow> ''error''),
      str_json = (\<lambda>v. ''None''),
      py_int = (\<lambda>s. if s = ''1700000000'' then Inr 1700000000 else Inl ValueError),
      fromtimestamp = (\<lambda>n. if n = 1700000000 then Inr ''2023-11-14 22:13:20''
                            else Inl ValueError),
      json_dumps = (\<lambda>v. ''[]''),
      yaml_dump = (\<lambda>v. Inr ''[]''),
      year_below_1000 = str_nat\<rparr>"

definition empty_world :: world where
  "empty_world = \<lparr>w_table = [], w_requests = [], w_stdout = []\<rparr>"

text \<open>The defaults of the argument parser, for a user name.\<close>

definition default_args :: "string \<Rightarrow> args" where
  "default_args username =
     \<lparr>arg_username = username, arg_limit = 10, arg_token = None, arg_format = ''text'',
      arg_types = None, arg_repos = None, arg_no_cache = True, arg_color = False,
      arg_enrich = False\<rparr>"

subsection \<open>The timestamp pattern in the words of the specification\<close>

text \<open>
  \<open>YYYY-MM-DDTHH:MM:SSZ\<close>: four digits, two digits and two digits for a date of the
  calendar, the letter T, two digits each for hour, minute and second of a day, the
  letter Z. \<open>iso_date\<close> is the same text as \<open>YYYY-MM-DD HH:MM\<close>.
\<close>

definition two_digits :: "char \<Rightarrow> char \<Rightarrow> nat" where
  "two_digits a b = 10 * digit_val a + digit_val b"

definition four_digits :: "char \<Rightarrow> char \<Rightarrow> char \<Rightarrow> char \<Rightarrow> nat" where
  "four_digits a b c d = 1000 * digit_val a + 100 * digit_val b + 10 * digit_val c + digit_val d"

definition iso_pattern :: "string \<Rightarrow> bool" where
  "iso_pattern s =
     (case s of
        [y1, y2, y3, y4, h1, m1, m2, h2, d1, d2, t, H1, H2, c1, M1, M2, c2, S1, S2, z] \<Rightarrow>
          (\<forall>c \<in> set [y1, y2, y3, y4, m1, m2, d1, d2, H1, H2, M1, M2, S1, S2]. c \<in> set digits)
          \<and> h1 = CHR ''-'' \<and> h2 = CHR ''-'' \<and> t = CHR ''T''
          \<and> c1 = CHR '':'' \<and> c2 = CHR '':'' \<and> z = CHR ''Z''
          \<and> 1 \<le> four_digits y1 y2 y3 y4
          \<and> 1 \<le> two_digits m1 m2 \<and> two_digits m1 m2 \<le> 12
          \<and> 1 \<le> two_digits d1 d2
          \<and> two_digits d1 d2 \<le> days_in_month (four_digits y1 y2 y3 y4) (two_digits m1 m2)
          \<and> two_digits H1 H2 \<le> 23 \<and> two_digits M1 M2 \<le> 59 \<and> two_digits S1 S2 \<le> 59
      | _ \<Rightarrow> False)"

definition iso_date :: "string \<Rightarrow> string" where
  "iso_date s = take 10 s @ '' '' @ take 5 (drop 11 s)"

text \<open>The year of a timestamp of the pattern.\<close>

definition iso_year :: "string \<Rightarrow> nat" where
  "iso_year s = group_int (take 4 s)"

text \<open>
  What \<^verbatim>\<open>_format_table\<close> reads from an activity. An activity is ready for the table
  in the sense of the specification when its \<open>created_at\<close> is a string of the pattern and
  it has a \<open>type\<close> and a \<open>repo.name\<close>. The code can make a row of it (\<open>rowable\<close>) when
  \<^verbatim>\<open>strptime\<close> accepts its \<open>created_at\<close> and it has a \<open>type\<close> and a \<open>repo.name\<close>;
  \<open>row_of\<close> is that row: the date cell, then type, repository name and message.
\<close>

definition seen_message :: "json \<Rightarrow> json" where
  "seen_message e =
     (case e of
        JObj kv \<Rightarrow> (case map_of kv ''message'' of None \<Rightarrow> JStr '''' | Some v \<Rightarrow> v)
      | _ \<Rightarrow> JStr '''')"

definition created_at_text :: "json \<Rightarrow> string" where
  "created_at_text e =
     (case e of
        JObj kv \<Rightarrow> (case map_of kv ''created_at'' of Some (JStr s) \<Rightarrow> s | _ \<Rightarrow> [])
      | _ \<Rightarrow> [])"

definition table_ready :: "json \<Rightarrow> bool" where
  "table_ready e =
     (case e of
        JObj kv \<Rightarrow>
          (case map_of kv ''created_at'' of Some (JStr s) \<Rightarrow> iso_pattern s | _ \<Rightarrow> False)
          \<and> map_of kv ''type'' \<noteq> None \<and> has_repo_name e
      | _ \<Rightarrow> False)"

text \<open>\<^verbatim>\<open>strptime\<close> accepts the activity's \<open>created_at\<close>.\<close>

definition created_at_accepted :: "json \<Rightarrow> bool" where
  "created_at_accepted e =
     (case e of
        JObj kv \<Rightarrow>
          (case map_of kv ''created_at'' of
             Some (JStr s) \<Rightarrow> (case strptime s of Inr dt \<Rightarrow> True | Inl err \<Rightarrow> False)
           | _ \<Rightarrow> False)
      | _ \<Rightarrow> False)"

definition rowable :: "json \<Rightarrow> bool" where
  "rowable e = (created_at_accepted e \<and> has_key e ''type'' \<and> has_repo_name e)"

definition date_text :: "pylib \<Rightarrow> json \<Rightarrow> string" where
  "date_text lib e = (case date_cell lib e of Inr d \<Rightarrow> d | Inl err \<Rightarrow> [])"

definition row_of :: "pylib \<Rightarrow> json \<Rightarrow> string" where
  "row_of lib e =
     ''| '' @ date_text lib e @ '' | '' @ py_format lib (seen_type e) @ '' | ''
       @ py_format lib (seen_repo e) @ '' | '' @ py_format lib (seen_message e) @ '' |''"

section \<open>The filter stage: what is kept\<close>

lemma filter_loop_filterable:
  assumes "\<forall>e\<in>set acts. filterable e"
  shows "filter_loop filters acc acts = Inr (acc @ filter (passes filters) acts)"
  using assms
proof (induction acts arbitrary: acc)
  case Nil
  then show ?case by simp
next
  case (Cons a acts)
  from Cons.prems have fa: "filterable a" and rest: "\<forall>e\<in>set acts. filterable e" by simp_all
  from fa obtain kv where a: "a = JObj kv"
    by (auto simp: filterable_def split: json.splits)
  from fa a consider (none) "map_of kv ''repo'' = None"
    | (obj) rkv where "map_of kv ''repo'' = Some (JObj rkv)"
    by (auto simp: filterable_def split: option.splits json.splits)
  then show ?case
  proof cases
    case none
    then show ?thesis
      using Cons.IH[OF rest]
      by (simp add: a passes_def seen_type_def seen_repo_def split: option.splits)
  next
    case obj
    then show ?thesis
      using Cons.IH[OF rest]
      by (simp add: a passes_def seen_type_def seen_repo_def split: option.splits)
  qed
qed

lemma filter_activities_filterable:
  assumes "\<forall>e\<in>set acts. filterable e"
  shows "filter_activities (JArr acts) filters = Inr (filter (passes filters) acts)"
  using filter_loop_filterable[OF assms, of filters "[]"] by (simp add: filter_activities_def)

lemma filter_match_str:
  "filter_match filters k (JStr s) = allows (filters_get filters k) (Some s)"
  by (simp add: filter_match_def allows_def split: option.splits)

lemma filter_match_None:
  "filter_match filters k JNull
     = (filters_get filters k = None \<or> filters_get filters k = Some [])"
  by (simp add: filter_match_def split: option.splits)

lemma filter_match_empty_str:
  "filter_match filters k (JStr '''')
     = (case filters_get filters k of None \<Rightarrow> True | Some rs \<Rightarrow> rs = [] \<or> '''' \<in> set rs)"
  by (simp add: filter_match_def split: option.splits)

lemma is_eventE:
  assumes "is_event a"
  obtains kv t rkv n where "a = JObj kv" "map_of kv ''type'' = Some (JStr t)"
     "map_of kv ''repo'' = Some (JObj rkv)" "map_of rkv ''name'' = Some (JStr n)"
  using assms
  by (auto simp: is_event_def event_type_def event_repo_name_def
           split: json.splits option.splits)

lemma is_event_filterable: "is_event e \<Longrightarrow> filterable e"
  by (erule is_eventE) (simp add: filterable_def)

lemma is_event_passes:
  assumes "is_event e"
  shows "passes filters e
           = spec_keep (filters_get filters ''types'') (filters_get filters ''repos'') e"
  using assms
  by (elim is_eventE)
     (simp add: passes_def spec_keep_def seen_type_def seen_repo_def event_type_def
                event_repo_name_def filter_match_str)

text \<open>
  C1. On a list of events (each with a string type and a string repo name), and for every
  filter dictionary, \<^verbatim>\<open>filter_activities\<close> returns exactly the events the rule of the
  specification keeps, in input order: the result is the input filtered by \<open>spec_keep\<close>,
  so it is a subsequence of the input, every kept event matches, and every matching event
  is kept.
\<close>

theorem filter_activities_keeps_exactly_matches:
  assumes "\<forall>e\<in>set acts. is_event e"
  shows "\<exists>out. filter_activities (JArr acts) filters = Inr out
           \<and> out = filter (spec_keep (filters_get filters ''types'')
                                      (filters_get filters ''repos'')) acts
           \<and> subseq out acts
           \<and> (\<forall>e. e \<in> set out \<longleftrightarrow>
                    e \<in> set acts
                    \<and> spec_keep (filters_get filters ''types'') (filters_get filters ''repos'') e)"
proof -
  have f: "\<forall>e\<in>set acts. filterable e"
    using assms by (simp add: is_event_filterable)
  have "filter (passes filters) acts
          = filter (spec_keep (filters_get filters ''types'') (filters_get filters ''repos'')) acts"
    using assms by (intro filter_cong refl) (simp add: is_event_passes)
  then show ?thesis
    using filter_activities_filterable[OF f, of filters] by simp
qed

text \<open>
  C1 on the two events of the specification's example and a third one, filtered by type.
\<close>

theorem filter_activities_keeps_exactly_matches_witness:
  "is_event (JObj [(''type'', JStr ''PushEvent''), (''repo'', JObj [(''name'', JStr ''a/b'')])])
   \<and> is_event (JObj [(''type'', JStr ''IssuesEvent''), (''repo'', JObj [(''name'', JStr ''a/b'')])])
   \<and> is_event (JObj [(''type'', JStr ''PushEvent''), (''repo'', JObj [(''name'', JStr ''c/d'')])])
   \<and> filter_activities
      (JArr [JObj [(''type'', JStr ''PushEvent''), (''repo'', JObj [(''name'', JStr ''a/b'')])],
             JObj [(''type'', JStr ''IssuesEvent''), (''repo'', JObj [(''name'', JStr ''a/b'')])],
             JObj [(''type'', JStr ''PushEvent''), (''repo'', JObj [(''name'', JStr ''c/d'')])]])
      [''types'' \<mapsto> Some [''PushEvent''], ''repos'' \<mapsto> None]
    = Inr [JObj [(''type'', JStr ''PushEvent''), (''repo'', JObj [(''name'', JStr ''a/b'')])],
           JObj [(''type'', JStr ''PushEvent''), (''repo'', JObj [(''name'', JStr ''c/d'')])]]"
proof -
  let ?acts =
    "[JObj [(''type'', JStr ''PushEvent''), (''repo'', JObj [(''name'', JStr ''a/b'')])],
      JObj [(''type'', JStr ''IssuesEvent''), (''repo'', JObj [(''name'', JStr ''a/b'')])],
      JObj [(''type'', JStr ''PushEvent''), (''repo'', JObj [(''name'', JStr ''c/d'')])]]"
  have h: "\<forall>e\<in>set ?acts. is_event e"
    by (simp add: is_event_def event_type_def event_repo_name_def)
  have "filter_activities (JArr ?acts) [''types'' \<mapsto> Some [''PushEvent''], ''repos'' \<mapsto> None]
          = Inr [JObj [(''type'', JStr ''PushEvent''), (''repo'', JObj [(''name'', JStr ''a/b'')])],
                 JObj [(''type'', JStr ''PushEvent''), (''repo'', JObj [(''name'', JStr ''c/d'')])]]"
    using filter_activities_keeps_exactly_matches
            [OF h, of "[''types'' \<mapsto> Some [''PushEvent''], ''repos'' \<mapsto> None]"]
    by (simp add: filters_get_def spec_keep_def allows_def event_type_def event_repo_name_def)
  with h show ?thesis by simp
qed

lemma filter_loop_raise:
  assumes "\<not> filterable a"
  shows "filter_loop filters acc (a # rest) = Inl AttributeError"
proof (cases a)
  case (JObj kv)
  with assms obtain v where v: "map_of kv ''repo'' = Some v"
    by (cases "map_of kv ''repo''") (simp_all add: filterable_def)
  with assms JObj show ?thesis
    by (cases v) (simp_all add: filterable_def)
qed simp_all

lemma filter_loop_step:
  assumes "filterable a"
  shows "filter_loop filters acc (a # rest)
           = filter_loop filters (if passes filters a then acc @ [a] else acc) rest"
proof -
  from assms obtain kv where a: "a = JObj kv"
    by (auto simp: filterable_def split: json.splits)
  from assms a consider (none) "map_of kv ''repo'' = None"
    | (obj) rkv where "map_of kv ''repo'' = Some (JObj rkv)"
    by (auto simp: filterable_def split: option.splits json.splits)
  then show ?thesis
  proof cases
    case none
    then show ?thesis
      by (simp add: a passes_def seen_type_def seen_repo_def split: option.splits)
  next
    case obj
    then show ?thesis
      by (simp add: a passes_def seen_type_def seen_repo_def split: option.splits)
  qed
qed

lemma filter_loop_not_filterable:
  assumes "\<exists>e\<in>set acts. \<not> filterable e"
  shows "filter_loop filters acc acts = Inl AttributeError"
  using assms
proof (induction acts arbitrary: acc)
  case Nil
  then show ?case by simp
next
  case (Cons a acts)
  show ?case
  proof (cases "filterable a")
    case True
    with Cons.prems have "\<exists>e\<in>set acts. \<not> filterable e" by auto
    from Cons.IH[OF this] show ?thesis
      unfolding filter_loop_step[OF True] .
  next
    case False
    then show ?thesis by (rule filter_loop_raise)
  qed
qed

text \<open>
  C9, as the code has it. On a list of dictionaries whose \<open>repo\<close>, where present, is a
  dictionary, \<^verbatim>\<open>filter_activities\<close> raises no error; an activity without \<open>type\<close> is
  kept iff the type filter is absent or empty (its type reads as \<^verbatim>\<open>None\<close>, which no
  list of type strings holds) and its repo name passes; an activity without \<open>repo\<close> or
  without \<open>repo.name\<close> is kept iff its type passes and the repo filter is absent, empty
  or holds the empty string. On every list with an activity that is no dictionary, or
  whose \<open>repo\<close> is present and no dictionary, \<^verbatim>\<open>filter_activities\<close> raises
  \<^verbatim>\<open>AttributeError\<close>.
\<close>

theorem filter_activities_missing_keys:
  "((\<forall>e\<in>set acts. filterable e) \<longrightarrow>
      (\<exists>out. filter_activities (JArr acts) filters = Inr out
          \<and> (\<forall>e\<in>set acts. \<not> has_key e ''type'' \<longrightarrow>
                (e \<in> set out \<longleftrightarrow>
                   (filters_get filters ''types'' = None \<or> filters_get filters ''types'' = Some [])
                   \<and> filter_match filters ''repos'' (seen_repo e)))
          \<and> (\<forall>e\<in>set acts. lacks_repo_name e \<longrightarrow>
                (e \<in> set out \<longleftrightarrow>
                   filter_match filters ''types'' (seen_type e)
                   \<and> (case filters_get filters ''repos'' of
                        None \<Rightarrow> True
                      | Some rs \<Rightarrow> rs = [] \<or> '''' \<in> set rs)))))
   \<and> ((\<exists>e\<in>set acts. \<not> filterable e) \<longrightarrow>
        filter_activities (JArr acts) filters = Inl AttributeError)"
proof (intro conjI impI)
  assume f: "\<forall>e\<in>set acts. filterable e"
  have t: "seen_type e = JNull" if "\<not> has_key e ''type''" "filterable e" for e
    using that
    by (auto simp: has_key_def seen_type_def filterable_def split: json.splits option.splits)
  have r: "seen_repo e = JStr ''''" if "lacks_repo_name e" for e
    using that by (auto simp: lacks_repo_name_def seen_repo_def split: json.splits option.splits)
  show "\<exists>out. filter_activities (JArr acts) filters = Inr out
          \<and> (\<forall>e\<in>set acts. \<not> has_key e ''type'' \<longrightarrow>
                (e \<in> set out \<longleftrightarrow>
                   (filters_get filters ''types'' = None \<or> filters_get filters ''types'' = Some [])
                   \<and> filter_match filters ''repos'' (seen_repo e)))
          \<and> (\<forall>e\<in>set acts. lacks_repo_name e \<longrightarrow>
                (e \<in> set out \<longleftrightarrow>
                   filter_match filters ''types'' (seen_type e)
                   \<and> (case filters_get filters ''repos'' of
                        None \<Rightarrow> True
                      | Some rs \<Rightarrow> rs = [] \<or> '''' \<in> set rs)))"
    unfolding filter_activities_filterable[OF f] using f
    by (auto simp: passes_def t r filter_match_None filter_match_empty_str)
next
  assume "\<exists>e\<in>set acts. \<not> filterable e"
  then show "filter_activities (JArr acts) filters = Inl AttributeError"
    by (simp add: filter_activities_def filter_loop_not_filterable)
qed

text \<open>
  C9 on a list with an activity that has no \<open>type\<close>, kept under a repo filter that holds
  the empty string, and one that has no \<open>repo.name\<close>, dropped by a repo filter that does
  not; and on a list whose second activity has a string for its \<open>repo\<close>.
\<close>

theorem filter_activities_missing_keys_witness:
  "filterable (JObj [(''id'', JStr ''1'')])
   \<and> filterable (JObj [(''type'', JStr ''PushEvent''), (''repo'', JObj [])])
   \<and> filter_activities
        (JArr [JObj [(''id'', JStr ''1'')], JObj [(''type'', JStr ''PushEvent''), (''repo'', JObj [])]])
        [''types'' \<mapsto> None, ''repos'' \<mapsto> Some ['''']]
       = Inr [JObj [(''id'', JStr ''1'')], JObj [(''type'', JStr ''PushEvent''), (''repo'', JObj [])]]
   \<and> filter_activities
        (JArr [JObj [(''id'', JStr ''1'')], JObj [(''type'', JStr ''PushEvent''), (''repo'', JObj [])]])
        [''types'' \<mapsto> None, ''repos'' \<mapsto> Some [''a/b'']]
       = Inr []
   \<and> \<not> filterable (JObj [(''type'', JStr ''PushEvent''), (''repo'', JStr ''a/b'')])
   \<and> filter_activities
        (JArr [JObj [(''id'', JStr ''1'')], JObj [(''type'', JStr ''PushEvent''), (''repo'', JStr ''a/b'')]])
        [''types'' \<mapsto> None, ''repos'' \<mapsto> None]
       = Inl AttributeError"
proof -
  let ?e1 = "JObj [(''id'', JStr ''1'')]"
  let ?e2 = "JObj [(''type'', JStr ''PushEvent''), (''repo'', JObj [])]"
  let ?e3 = "JObj [(''type'', JStr ''PushEvent''), (''repo'', JStr ''a/b'')]"
  let ?f = "[''types'' \<mapsto> None, ''repos'' \<mapsto> Some ['''']] :: filters"
  let ?g = "[''types'' \<mapsto> None, ''repos'' \<mapsto> Some [''a/b'']] :: filters"
  let ?h = "[''types'' \<mapsto> None, ''repos'' \<mapsto> None] :: filters"
  have h: "\<forall>e\<in>set [?e1, ?e2]. filterable e" by (simp add: filterable_def)
  have n: "\<not> has_key ?e1 ''type''" "lacks_repo_name ?e1" "lacks_repo_name ?e2"
    by (simp_all add: has_key_def lacks_repo_name_def)
  have s: "seen_type ?e1 = JNull" "seen_type ?e2 = JStr ''PushEvent''"
    by (simp_all add: seen_type_def)
  have n3: "\<not> filterable ?e3" by (simp add: filterable_def)
  then have x: "\<exists>e\<in>set [?e1, ?e3]. \<not> filterable e" by simp
  note t = filter_activities_missing_keys
  obtain out where o: "filter_activities (JArr [?e1, ?e2]) ?f = Inr out"
    and k: "?e1 \<in> set out" "?e2 \<in> set out"
    using t[where acts = "[?e1, ?e2]" and filters = ?f, THEN conjunct1, THEN mp, OF h] n
    by (auto simp: s filter_match_def filters_get_def)
  obtain out' where o': "filter_activities (JArr [?e1, ?e2]) ?g = Inr out'"
    and k': "?e1 \<notin> set out'" "?e2 \<notin> set out'"
    using t[where acts = "[?e1, ?e2]" and filters = ?g, THEN conjunct1, THEN mp, OF h] n
    by (auto simp: s filter_match_def filters_get_def)
  have r: "filter_activities (JArr [?e1, ?e3]) ?h = Inl AttributeError"
    using t[where acts = "[?e1, ?e3]" and filters = ?h, THEN conjunct2, THEN mp, OF x] .
  have "filter_activities (JArr [?e1, ?e2]) ?f = Inr [?e1, ?e2]"
    by (simp add: filter_activities_def filter_match_def filters_get_def)
  moreover have "filter_activities (JArr [?e1, ?e2]) ?g = Inr []"
    by (simp add: filter_activities_def filter_match_def filters_get_def)
  ultimately show ?thesis using h o o' n3 r by simp
qed

text \<open>
  C9 as stated fails: an activity without \<open>type\<close> whose \<open>repo\<close> is \<^verbatim>\<open>null\<close> makes
  \<^verbatim>\<open>None.get('name', '')\<close> raise \<^verbatim>\<open>AttributeError\<close>.
\<close>

theorem filter_activities_null_repo_raises:
  "\<not> has_key (JObj [(''repo'', JNull)]) ''type''
   \<and> filter_activities (JArr [JObj [(''repo'', JNull)]]) Map.empty = Inl AttributeError"
  by (simp add: filter_activities_def has_key_def)

section \<open>The limit\<close>

text \<open>
  C4, as the code has it. The slice is taken of the filtered list: for a limit \<open>N \<ge> 0\<close>
  the result is the first \<open>N\<close> filtered events and is no longer than \<open>N\<close>; a negative
  limit \<open>-k\<close> drops the last \<open>k\<close> filtered events instead.
\<close>

theorem limit_after_filter:
  assumes "filter_activities activities [''types'' \<mapsto> types, ''repos'' \<mapsto> repos] = Inr fl"
  shows "\<exists>out. main_filtered activities types repos limit = Inr out
           \<and> (0 \<le> limit \<longrightarrow> out = take (nat limit) fl \<and> int (length out) \<le> limit)
           \<and> (limit < 0 \<longrightarrow> out = take (length fl - nat (- limit)) fl)"
proof -
  have "nat (int (length fl) + limit) = length fl - nat (- limit)" if "limit < 0"
    using that by linarith
  then show ?thesis
    using assms by (auto simp: main_filtered_def py_slice_to_def)
qed

text \<open>C4 with three events, a type filter that keeps two of them, and the limit 1.\<close>

theorem limit_after_filter_witness:
  "filter_activities
       (JArr [JObj [(''type'', JStr ''PushEvent'')], JObj [(''type'', JStr ''IssuesEvent'')],
              JObj [(''type'', JStr ''PushEvent'')]])
       [''types'' \<mapsto> Some [''PushEvent''], ''repos'' \<mapsto> None]
     = Inr [JObj [(''type'', JStr ''PushEvent'')], JObj [(''type'', JStr ''PushEvent'')]]
   \<and> main_filtered
       (JArr [JObj [(''type'', JStr ''PushEvent'')], JObj [(''type'', JStr ''IssuesEvent'')],
              JObj [(''type'', JStr ''PushEvent'')]])
       (Some [''PushEvent'']) None 1
     = Inr [JObj [(''type'', JStr ''PushEvent'')]]"
proof -
  let ?acts = "JArr [JObj [(''type'', JStr ''PushEvent'')], JObj [(''type'', JStr ''IssuesEvent'')],
              JObj [(''type'', JStr ''PushEvent'')]]"
  have h: "filter_activities ?acts [''types'' \<mapsto> Some [''PushEvent''], ''repos'' \<mapsto> None]
     = Inr [JObj [(''type'', JStr ''PushEvent'')], JObj [(''type'', JStr ''PushEvent'')]]"
    by (simp add: filter_activities_def filter_match_def filters_get_def)
  show ?thesis
    using h limit_after_filter[OF h, of 1] by simp
qed

text \<open>
  C4 as stated fails for a negative limit: with \<^verbatim>\<open>--limit -1\<close> and two events the
  program keeps one event, more than the limit.
\<close>

theorem negative_limit_exceeded:
  "main_filtered
      (JArr [JObj [(''type'', JStr ''PushEvent'')], JObj [(''type'', JStr ''IssuesEvent'')]])
      None None (- 1)
     = Inr [JObj [(''type'', JStr ''PushEvent'')]]
   \<and> - 1 < int (length [JObj [(''type'', JStr ''PushEvent'')]])"
  by (simp add: main_filtered_def filter_activities_def py_slice_to_def filter_match_def
                filters_get_def)

section \<open>The cache store\<close>

text \<open>
  C7. After \<^verbatim>\<open>_cache_activities\<close> the table holds exactly one row of the user, the new
  entry (so at most one), and the rows of every other user are the ones it held before,
  in the same order.
\<close>

theorem cache_write_one_row:
  "filter (\<lambda>r. row_username r = username) (cache_activities tbl now username d)
      = [\<lparr>row_username = username, row_data = d, row_timestamp = now\<rparr>]
   \<and> length (filter (\<lambda>r. row_username r = username) (cache_activities tbl now username d)) \<le> 1
   \<and> filter (\<lambda>r. row_username r \<noteq> username) (cache_activities tbl now username d)
      = filter (\<lambda>r. row_username r \<noteq> username) tbl"
  by (simp add: cache_activities_def)

section \<open>Reading the cache\<close>

text \<open>
  A read within ten minutes of a write returns what was written; a fetch then returns a
  truthy value without sending a request; and what a read returns comes from a row that
  is at most ten minutes old.
\<close>

lemma cache_read_after_write:
  assumes "now - 600 \<le> t"
  shows "get_cached_activities (cache_activities tbl t username d) now username = d"
proof -
  have "filter (\<lambda>r. row_username r = username \<and> now - 600 \<le> row_timestamp r)
          (filter (\<lambda>r. row_username r \<noteq> username) tbl) = []"
    by (simp add: filter_empty_conv)
  then show ?thesis
    using assms by (simp add: get_cached_activities_def cache_activities_def)
qed

lemma fetch_hit_without_network:
  assumes "truthy d" "now - 600 \<le> t"
  shows "fetch_activities lib urlopen now now'
           (w\<lparr>w_table := cache_activities (w_table w) t username d\<rparr>) username token True
         = (Return d, w\<lparr>w_table := cache_activities (w_table w) t username d\<rparr>)"
  using assms by (simp add: fetch_activities_def cache_read_after_write)

lemma stale_entry_not_read:
  assumes "get_cached_activities tbl now username = d" "d \<noteq> JNull"
  shows "\<exists>r\<in>set tbl. row_username r = username \<and> row_data r = d \<and> now - row_timestamp r \<le> 600"
proof -
  let ?rows = "filter (\<lambda>r. row_username r = username \<and> now - 600 \<le> row_timestamp r) tbl"
  from assms obtain r rest where r: "?rows = r # rest" "row_data r = d"
    by (auto simp: get_cached_activities_def split: list.splits)
  then have "r \<in> set ?rows" by simp
  then have "r \<in> set tbl" "row_username r = username" "now - 600 \<le> row_timestamp r"
    by simp_all
  with r(2) show ?thesis by force
qed

text \<open>
  C2 fails on the code for the empty list. \<^verbatim>\<open>_cache_activities\<close> stores the empty list,
  but \<^verbatim>\<open>if cached:\<close> is false for it, so the fetch that follows at once sends the
  request again and returns what the network gives, here a different list.
\<close>

theorem cached_empty_list_is_fetched_again:
  "fetch_activities lib (\<lambda>req. Inr (JArr [JObj [(''type'', JStr ''PushEvent'')]])) 0 0
      \<lparr>w_table = cache_activities [] 0 ''octocat'' (JArr []), w_requests = [], w_stdout = []\<rparr>
      ''octocat'' None True
   = (Return (JArr [JObj [(''type'', JStr ''PushEvent'')]]),
      \<lparr>w_table = [\<lparr>row_username = ''octocat'',
                    row_data = JArr [JObj [(''type'', JStr ''PushEvent'')]],
                    row_timestamp = 0\<rparr>],
       w_requests = [\<lparr>req_url = ''https://api.github.com/users/octocat/events'',
                       req_headers = [(''User-Agent'', ''GitHub-Activity-CLI/2.0'')]\<rparr>],
       w_stdout = []\<rparr>)"
  by (simp add: fetch_activities_def get_cached_activities_def cache_activities_def
                events_request_def send_def)

section \<open>Errors of the primary fetch\<close>

text \<open>
  C8, as the code has it. When the cache does not answer and the request ends in an
  \<^verbatim>\<open>HTTPError\<close>, the program prints \<open>API Error: <code> <reason>\<close> first and ends with
  exit code 1. When the header \<^verbatim>\<open>X-RateLimit-Remaining\<close> is not \<^verbatim>\<open>'0'\<close> it prints
  nothing else. When it is \<^verbatim>\<open>'0'\<close> and \<^verbatim>\<open>X-RateLimit-Reset\<close> holds text that
  \<^verbatim>\<open>int\<close> and \<^verbatim>\<open>fromtimestamp\<close> convert, it prints the reset time next. When it is
  \<^verbatim>\<open>'0'\<close> and \<^verbatim>\<open>X-RateLimit-Reset\<close> is missing (\<^verbatim>\<open>int(None)\<close> is a \<^verbatim>\<open>TypeError\<close>)
  or does not convert, the exception leaves the handler: no reset time is printed, and
  \<^verbatim>\<open>main\<close> handles the exception, printing its one error line. When the request ends in
  a \<^verbatim>\<open>URLError\<close> the program prints \<open>Connection Error: <reason>\<close> and ends with exit
  code 1.
\<close>

theorem primary_fetch_errors_exit_nonzero:
  assumes miss: "\<not> (arg_no_cache a \<and> truthy (get_cached_activities (w_table w) now (arg_username a)))"
  shows "(urlopen (events_request (arg_username a) (arg_token a)) = Inl (HTTPError code reason hdrs) \<longrightarrow>
            fst (main lib urlopen now now' w a) = 1
            \<and> (\<exists>more. w_stdout (snd (main lib urlopen now now' w a))
                   = w_stdout w @ (''API Error: '' @ str_int code @ '' '' @ reason) # more)
            \<and> (header_get hdrs ''X-RateLimit-Remaining'' \<noteq> Some ''0'' \<longrightarrow>
                 w_stdout (snd (main lib urlopen now now' w a))
                   = w_stdout w @ [''API Error: '' @ str_int code @ '' '' @ reason])
            \<and> (header_get hdrs ''X-RateLimit-Remaining'' = Some ''0''
                 \<and> header_get hdrs ''X-RateLimit-Reset'' = Some s
                 \<and> py_int lib s = Inr n \<and> fromtimestamp lib n = Inr reset_time \<longrightarrow>
                 w_stdout (snd (main lib urlopen now now' w a))
                   = w_stdout w @ [''API Error: '' @ str_int code @ '' '' @ reason,
                                   ''Rate limit exceeded. Reset at '' @ reset_time])
            \<and> (header_get hdrs ''X-RateLimit-Remaining'' = Some ''0''
                 \<and> header_get hdrs ''X-RateLimit-Reset'' = None \<longrightarrow>
                 w_stdout (snd (main lib urlopen now now' w a))
                   = w_stdout w @ [''API Error: '' @ str_int code @ '' '' @ reason,
                                   ''Unexpected error: '' @ str_exc lib TypeError])
            \<and> (header_get hdrs ''X-RateLimit-Remaining'' = Some ''0''
                 \<and> header_get hdrs ''X-RateLimit-Reset'' = Some s
                 \<and> (py_int lib s = Inl e \<or> py_int lib s = Inr n \<and> fromtimestamp lib n = Inl e) \<longrightarrow>
                 main lib urlopen now now' w a
                   = handle lib e
                       (print (send w (events_request (arg_username a) (arg_token a)))
                              (''API Error: '' @ str_int code @ '' '' @ reason))))
       \<and> (urlopen (events_request (arg_username a) (arg_token a)) = Inl (URLError reason) \<longrightarrow>
            fst (main lib urlopen now now' w a) = 1
            \<and> w_stdout (snd (main lib urlopen now now' w a))
                 = w_stdout w @ [''Connection Error: '' @ reason])"
  using miss
  by (auto simp: main_def fetch_activities_def handle_def print_def send_def Let_def
           split: option.splits sum.splits)

text \<open>
  C8 as stated fails when the quota is used up and the response has no
  \<^verbatim>\<open>X-RateLimit-Reset\<close> header: after \<open>API Error\<close> the program prints
  \<open>Unexpected error\<close> and no reset time.
\<close>

theorem rate_limit_reset_missing_not_reported:
  "header_get [(''X-RateLimit-Remaining'', ''0'')] ''X-RateLimit-Remaining'' = Some ''0''
   \<and> main example_lib
        (\<lambda>req. Inl (HTTPError 403 ''rate limit exceeded'' [(''X-RateLimit-Remaining'', ''0'')]))
        0 0 empty_world (default_args ''octocat'')
      = (1, \<lparr>w_table = [],
              w_requests = [events_request ''octocat'' None],
              w_stdout = [''API Error: 403 rate limit exceeded'',
                          ''Unexpected error: '' @ str_exc example_lib TypeError]\<rparr>)"
proof -
  have hd: "header_get [(''X-RateLimit-Remaining'', ''0'')] ''X-RateLimit-Remaining'' = Some ''0''"
    "header_get [(''X-RateLimit-Remaining'', ''0'')] ''X-RateLimit-Reset'' = None"
    by (simp_all add: lower_def)
  have code: "str_int 403 = ''403''"
    by (simp add: str_int_def str_nat.simps digit_char_def digits_def)
  have "main example_lib
        (\<lambda>req. Inl (HTTPError 403 ''rate limit exceeded'' [(''X-RateLimit-Remaining'', ''0'')]))
        0 0 empty_world (default_args ''octocat'')
      = (1, \<lparr>w_table = [],
              w_requests = [events_request ''octocat'' None],
              w_stdout = [''API Error: 403 rate limit exceeded'',
                          ''Unexpected error: '' @ str_exc example_lib TypeError]\<rparr>)"
    unfolding main_def fetch_activities_def
    by (simp add: default_args_def empty_world_def get_cached_activities_def hd code
          handle_def print_def send_def del: header_get.simps)
  with hd(1) show ?thesis by simp
qed

text \<open>
  The same for every response with the quota used up and no \<^verbatim>\<open>X-RateLimit-Reset\<close>
  header.
\<close>

lemma rate_limit_without_reset_header:
  assumes "\<not> (arg_no_cache a \<and> truthy (get_cached_activities (w_table w) now (arg_username a)))"
    and "urlopen (events_request (arg_username a) (arg_token a)) = Inl (HTTPError code reason hdrs)"
    and "header_get hdrs ''X-RateLimit-Remaining'' = Some ''0''"
    and "header_get hdrs ''X-RateLimit-Reset'' = None"
  shows "fst (main lib urlopen now now' w a) = 1"
    and "w_stdout (snd (main lib urlopen now now' w a))
           = w_stdout w @ [''API Error: '' @ str_int code @ '' '' @ reason,
                           ''Unexpected error: '' @ str_exc lib TypeError]"
  using assms
  by (auto simp: main_def fetch_activities_def handle_def print_def send_def Let_def)

text \<open>
  C8 on a 403 with the quota used up and a reset time, and on a timeout, both with an
  empty cache.
\<close>

theorem primary_fetch_errors_exit_nonzero_witness:
  "\<not> (arg_no_cache (default_args ''octocat'')
        \<and> truthy (get_cached_activities (w_table empty_world) 0 (arg_username (default_args ''octocat''))))
   \<and> main example_lib
        (\<lambda>req. Inl (HTTPError 403 ''rate limit exceeded''
                      [(''x-ratelimit-remaining'', ''0''), (''x-ratelimit-reset'', ''1700000000'')]))
        0 0 empty_world (default_args ''octocat'')
      = (1, \<lparr>w_table = [],
              w_requests = [events_request ''octocat'' None],
              w_stdout = [''API Error: 403 rate limit exceeded'',
                          ''Rate limit exceeded. Reset at 2023-11-14 22:13:20'']\<rparr>)
   \<and> main example_lib (\<lambda>req. Inl (URLError ''timed out'')) 0 0 empty_world (default_args ''octocat'')
      = (1, \<lparr>w_table = [],
              w_requests = [events_request ''octocat'' None],
              w_stdout = [''Connection Error: timed out'']\<rparr>)"
proof -
  let ?a = "default_args ''octocat''"
  let ?h = "[(''x-ratelimit-remaining'', ''0''), (''x-ratelimit-reset'', ''1700000000'')]"
  let ?net = "\<lambda>req::request. (Inl (HTTPError 403 ''rate limit exceeded'' ?h) :: exc + json)"
  let ?net' = "\<lambda>req::request. (Inl (URLError ''timed out'') :: exc + json)"
  have miss: "\<not> (arg_no_cache ?a
        \<and> truthy (get_cached_activities (w_table empty_world) 0 (arg_username ?a)))"
    by (simp add: default_args_def empty_world_def get_cached_activities_def)
  have hd: "header_get ?h ''X-RateLimit-Remaining'' = Some ''0''"
        "header_get ?h ''X-RateLimit-Reset'' = Some ''1700000000''"
    by (simp_all add: lower_def)
  have lib: "py_int example_lib ''1700000000'' = Inr 1700000000"
        "fromtimestamp example_lib 1700000000 = Inr ''2023-11-14 22:13:20''"
    by (simp_all add: example_lib_def)
  have code: "str_int 403 = ''403''"
    by (simp add: str_int_def str_nat.simps digit_char_def digits_def)
  have w: "w_stdout empty_world = []" "w_table empty_world = []" "w_requests empty_world = []"
    by (simp_all add: empty_world_def)
  have tbl: "w_table (snd (main example_lib net 0 0 empty_world ?a)) = []
           \<and> w_requests (snd (main example_lib net 0 0 empty_world ?a)) = [events_request ''octocat'' None]"
    if "\<exists>e. net (events_request ''octocat'' None) = Inl e" for net
    using that
    by (auto simp: main_def fetch_activities_def handle_def print_def send_def Let_def
                   default_args_def empty_world_def get_cached_activities_def
             split: option.splits sum.splits exc.splits)
  have 1: "fst (main example_lib ?net 0 0 empty_world ?a) = 1
       \<and> w_stdout (snd (main example_lib ?net 0 0 empty_world ?a))
           = [''API Error: 403 rate limit exceeded'',
              ''Rate limit exceeded. Reset at 2023-11-14 22:13:20'']"
    using primary_fetch_errors_exit_nonzero
            [OF miss, where urlopen = ?net and code = 403 and reason = "''rate limit exceeded''"
                and hdrs = ?h and lib = example_lib and now' = 0 and s = "''1700000000''"
                and n = 1700000000 and reset_time = "''2023-11-14 22:13:20''"]
    by (simp add: lib code w lower_def)
  have 2: "fst (main example_lib ?net' 0 0 empty_world ?a) = 1
       \<and> w_stdout (snd (main example_lib ?net' 0 0 empty_world ?a)) = [''Connection Error: timed out'']"
    using primary_fetch_errors_exit_nonzero
            [OF miss, where urlopen = ?net' and reason = "''timed out''" and lib = example_lib
                and now' = 0]
    by (simp add: w)
  have eq: "p = (fst p, \<lparr>w_table = w_table (snd p), w_requests = w_requests (snd p),
                         w_stdout = w_stdout (snd p)\<rparr>)" for p :: "int \<times> world"
    by (cases p) simp
  show ?thesis
    using miss 1 2 tbl[of ?net] tbl[of ?net']
    by (subst (2) eq, subst (1) eq) simp
qed

section \<open>The enrichment stage\<close>

text \<open>
  C3 fails on the code for an event without \<open>repo\<close>: the URL is built outside the
  \<^verbatim>\<open>try\<close>, so \<^verbatim>\<open>activity['repo']\<close> raises \<^verbatim>\<open>KeyError\<close> out of
  \<^verbatim>\<open>enrich_activity\<close>, no request is sent and no \<open>repo_details\<close> is attached.
\<close>

theorem enrich_activity_missing_repo_raises:
  "enrich_activity lib urlopen w (JObj [(''type'', JStr ''PushEvent'')])
     = (Raise (KeyError ''repo''), w)"
  by (simp add: enrich_activity_def)

text \<open>
  The exception ends the list comprehension and the run: the first event was enriched,
  yet nothing is printed but the error, and the exit code is 1.
\<close>

lemma enrich_all_stops_at_first_raise:
  "enrich_all lib urlopen w
      [JObj [(''type'', JStr ''PushEvent''), (''repo'', JObj [(''name'', JStr ''a/b'')])],
       JObj [(''type'', JStr ''PushEvent'')]]
     = (Raise (KeyError ''repo''),
        send w (repo_request lib (JStr ''a/b'')))"
  by (simp add: enrich_activity_def Let_def split: sum.splits)

lemma main_enrich_failure_is_fatal:
  fixes lib :: pylib
  defines "acts \<equiv> [JObj [(''type'', JStr ''PushEvent''), (''repo'', JObj [(''name'', JStr ''a/b'')])],
                       JObj [(''type'', JStr ''PushEvent'')]]"
  defines "a \<equiv> (default_args ''octocat'')\<lparr>arg_no_cache := False, arg_enrich := True\<rparr>"
  shows "main lib (\<lambda>req. Inr (JArr acts)) 0 0 empty_world a
     = (1, \<lparr>w_table = [],
             w_requests = [events_request ''octocat'' None, repo_request lib (JStr ''a/b'')],
             w_stdout = [''Unexpected error: '' @ str_exc lib (KeyError ''repo'')]\<rparr>)"
proof -
  let ?net = "\<lambda>req::request. (Inr (JArr acts) :: exc + json)"
  have a: "arg_username a = ''octocat''" "arg_token a = None" "arg_no_cache a = False"
      "arg_types a = None" "arg_repos a = None" "arg_limit a = 10" "arg_enrich a = True"
    by (simp_all add: a_def default_args_def)
  have f: "fetch_activities lib ?net 0 0 empty_world ''octocat'' None False
            = (Return (JArr acts), send empty_world (events_request ''octocat'' None))"
    by (simp add: fetch_activities_def Let_def)
  have m: "main_filtered (JArr acts) None None 10 = Inr acts"
    by (simp add: main_filtered_def filter_activities_def filter_match_def filters_get_def
                  py_slice_to_def acts_def)
  have e: "enrich_all lib ?net (send empty_world (events_request ''octocat'' None)) acts
            = (Raise (KeyError ''repo''),
               send (send empty_world (events_request ''octocat'' None))
                    (repo_request lib (JStr ''a/b'')))"
    unfolding acts_def by (rule enrich_all_stops_at_first_raise)
  show ?thesis
    unfolding main_def a f m e prod.case outcome.case sum.case if_True
    by (simp add: handle_def print_def send_def empty_world_def)
qed

lemma repo_details_cases:
  "(\<exists>stars forks description.
       repo_details repo_data = Inr (JObj [(''stars'', stars), (''forks'', forks),
                                           (''description'', description)]))
   \<or> repo_details repo_data = Inl AttributeError"
  by (cases repo_data) (simp_all add: repo_details_def)

text \<open>
  C10. For an event that is a dictionary whose \<open>repo\<close> is a dictionary with a \<open>name\<close>,
  \<^verbatim>\<open>enrich_activity\<close> returns the event with \<open>repo_details\<close> set and sends one request.
  \<open>repo_details\<close> is present afterwards, every other key reads as before, the keys are
  the old ones in the old order (with \<open>repo_details\<close> added last when it was new), and
  the details are \<open>{stars, forks, description}\<close> or \<open>{error: message}\<close>.
\<close>

theorem enrich_activity_frame:
  assumes "activity = JObj kv" "map_of kv ''repo'' = Some (JObj rkv)"
    and "map_of rkv ''name'' = Some name"
  shows "\<exists>details.
           enrich_activity lib urlopen w activity
             = (Return (JObj (AList.update ''repo_details'' details kv)),
                send w (repo_request lib name))
           \<and> map_of (AList.update ''repo_details'' details kv) ''repo_details'' = Some details
           \<and> (\<forall>k. k \<noteq> ''repo_details'' \<longrightarrow>
                 map_of (AList.update ''repo_details'' details kv) k = map_of kv k)
           \<and> map fst (AList.update ''repo_details'' details kv)
               = (if ''repo_details'' \<in> set (map fst kv) then map fst kv
                  else map fst kv @ [''repo_details''])
           \<and> ((\<exists>stars forks description.
                  details = JObj [(''stars'', stars), (''forks'', forks),
                                  (''description'', description)])
               \<or> (\<exists>msg. details = JObj [(''error'', JStr msg)]))"
proof -
  define details where "details =
     (case urlopen (repo_request lib name) of
        Inl e \<Rightarrow> JObj [(''error'', JStr (str_exc lib e))]
      | Inr repo_data \<Rightarrow>
         (case repo_details repo_data of
            Inl e \<Rightarrow> JObj [(''error'', JStr (str_exc lib e))]
          | Inr d \<Rightarrow> d))"
  have run: "enrich_activity lib urlopen w activity
             = (Return (JObj (AList.update ''repo_details'' details kv)),
                send w (repo_request lib name))"
    using assms by (simp add: enrich_activity_def details_def Let_def)
  have shape: "(\<exists>stars forks description.
                  details = JObj [(''stars'', stars), (''forks'', forks),
                                  (''description'', description)])
               \<or> (\<exists>msg. details = JObj [(''error'', JStr msg)])"
  proof (cases "urlopen (repo_request lib name)")
    case (Inl e)
    then show ?thesis by (simp add: details_def)
  next
    case (Inr repo_data)
    with repo_details_cases[of repo_data] show ?thesis
      by (auto simp: details_def)
  qed
  have keys: "map fst (AList.update ''repo_details'' details kv)
               = (if ''repo_details'' \<in> set (map fst kv) then map fst kv
                  else map fst kv @ [''repo_details''])"
    by (simp add: update_keys del: set_map)
  show ?thesis
    using run shape keys by (intro exI[of _ details]) (simp add: update_conv')
qed

text \<open>C10 on a lookup that succeeds (without \<open>forks_count\<close>) and one that times out.\<close>

theorem enrich_activity_frame_witness:
  "map_of [(''type'', JStr ''PushEvent''), (''repo'', JObj [(''name'', JStr ''a/b'')])] ''repo''
     = Some (JObj [(''name'', JStr ''a/b'')])
   \<and> map_of [(''name'', JStr ''a/b'')] ''name'' = Some (JStr ''a/b'')
   \<and> enrich_activity example_lib
        (\<lambda>req. Inr (JObj [(''stargazers_count'', JInt 5), (''description'', JStr ''demo'')]))
        empty_world
        (JObj [(''type'', JStr ''PushEvent''), (''repo'', JObj [(''name'', JStr ''a/b'')])])
      = (Return (JObj [(''type'', JStr ''PushEvent''), (''repo'', JObj [(''name'', JStr ''a/b'')]),
                       (''repo_details'', JObj [(''stars'', JInt 5), (''forks'', JNull),
                                                (''description'', JStr ''demo'')])]),
         send empty_world (repo_request example_lib (JStr ''a/b'')))
   \<and> enrich_activity example_lib (\<lambda>req. Inl (URLError ''timed out'')) empty_world
        (JObj [(''type'', JStr ''PushEvent''), (''repo'', JObj [(''name'', JStr ''a/b'')])])
      = (Return (JObj [(''type'', JStr ''PushEvent''), (''repo'', JObj [(''name'', JStr ''a/b'')]),
                       (''repo_details'', JObj [(''error'', JStr ''error'')])]),
         send empty_world (repo_request example_lib (JStr ''a/b'')))"
proof -
  let ?kv = "[(''type'', JStr ''PushEvent''), (''repo'', JObj [(''name'', JStr ''a/b'')])]"
  let ?net = "\<lambda>req::request. (Inr (JObj [(''stargazers_count'', JInt 5), (''description'', JStr ''demo'')]) :: exc + json)"
  let ?net' = "\<lambda>req::request. (Inl (URLError ''timed out'') :: exc + json)"
  have h1: "map_of ?kv ''repo'' = Some (JObj [(''name'', JStr ''a/b'')])" by simp
  have h2: "map_of [(''name'', JStr ''a/b'')] ''name'' = Some (JStr ''a/b'')" by simp
  obtain d where d: "enrich_activity example_lib ?net empty_world (JObj ?kv)
             = (Return (JObj (AList.update ''repo_details'' d ?kv)),
                send empty_world (repo_request example_lib (JStr ''a/b'')))"
    using enrich_activity_frame[OF refl h1 h2, of example_lib ?net empty_world] by blast
  have "enrich_activity example_lib ?net empty_world (JObj ?kv)
      = (Return (JObj [(''type'', JStr ''PushEvent''), (''repo'', JObj [(''name'', JStr ''a/b'')]),
                       (''repo_details'', JObj [(''stars'', JInt 5), (''forks'', JNull),
                                                (''description'', JStr ''demo'')])]),
         send empty_world (repo_request example_lib (JStr ''a/b'')))"
    using d by (simp add: enrich_activity_def repo_details_def Let_def)
  moreover have "enrich_activity example_lib ?net' empty_world (JObj ?kv)
      = (Return (JObj [(''type'', JStr ''PushEvent''), (''repo'', JObj [(''name'', JStr ''a/b'')]),
                       (''repo_details'', JObj [(''error'', JStr ''error'')])]),
         send empty_world (repo_request example_lib (JStr ''a/b'')))"
    by (simp add: enrich_activity_def Let_def example_lib_def)
  ultimately show ?thesis using h1 h2 by simp
qed

section \<open>The table: parsing and rendering the timestamp\<close>

text \<open>
  Each directive of the format, on two digits in its range and followed by its separator,
  matches exactly these two digits: the shorter alternatives fail at the separator.
\<close>

lemma digitE:
  assumes "c \<in> set digits"
  obtains "c = CHR ''0''" | "c = CHR ''1''" | "c = CHR ''2''" | "c = CHR ''3''" | "c = CHR ''4''"
    | "c = CHR ''5''" | "c = CHR ''6''" | "c = CHR ''7''" | "c = CHR ''8''" | "c = CHR ''9''"
  using assms unfolding digits_def by (simp only: set_simps insert_iff empty_iff) blast

lemma lower_seps:
  "lower (CHR ''-'') = CHR ''-''" "lower (CHR '':'') = CHR '':''"
  "lower (CHR ''T'') = CHR ''t''" "lower (CHR ''Z'') = CHR ''z''"
  by (simp_all add: lower_def)

lemma lower_digit: "c \<in> set digits \<Longrightarrow> lower c = c"
  by (erule digitE; simp add: lower_def)

lemma digit_not_sep:
  assumes "c \<in> set digits"
  shows "c \<noteq> CHR ''-''" "c \<noteq> CHR '':''" "c \<noteq> CHR ''t''" "c \<noteq> CHR ''z''" "c \<noteq> CHR '' ''"
  by (rule digitE[OF assms]; simp)+

lemma lit_digit:
  assumes "c \<in> set digits" "sep \<in> {CHR ''-'', CHR '':'', CHR ''T'', CHR ''Z''}"
  shows "re_matches (Lit sep # items) (c # rest) = []"
proof -
  have "lower c \<noteq> lower sep"
    using assms(2) digit_not_sep[OF assms(1)]
    by (auto simp: lower_digit[OF assms(1)] lower_seps)
  then show ?thesis by simp
qed

lemma fmt_Y_match:
  assumes "a \<in> set digits" "b \<in> set digits" "c \<in> set digits" "d \<in> set digits"
  shows "re_matches (Group fmt_Y # items) (a # b # c # d # rest)
           = map (\<lambda>(gs, r). ([a, b, c, d] # gs, r)) (re_matches items rest)"
  using assms by (simp add: fmt_Y_def)


lemma lit_digits:
  assumes "c \<in> set digits"
  shows "re_matches (Lit (CHR ''-'') # items) (c # rest) = []"
    and "re_matches (Lit (CHR '':'') # items) (c # rest) = []"
    and "re_matches (Lit (CHR ''T'') # items) (c # rest) = []"
    and "re_matches (Lit (CHR ''Z'') # items) (c # rest) = []"
  using assms by (rule lit_digit, simp)+

lemma lit_same: "re_matches (Lit sep # items) (sep # rest) = re_matches items rest"
  by simp

lemma fmt_m_match:
  assumes "a \<in> set digits" "b \<in> set digits"
    and "1 \<le> 10 * digit_val a + digit_val b" "10 * digit_val a + digit_val b \<le> 12"
  shows "re_matches (Group fmt_m # Lit (CHR ''-'') # items) (a # b # CHR ''-'' # rest)
           = map (\<lambda>(gs, r). ([a, b] # gs, r)) (re_matches items rest)"
  unfolding re_matches.simps(3) fmt_m_def
  apply (insert assms(3,4))
  by (rule digitE[OF assms(1)]; rule digitE[OF assms(2)];
      simp add: digit_val_def digits_def lit_digits lit_same del: re_matches.simps)

lemma fmt_d_match:
  assumes "a \<in> set digits" "b \<in> set digits"
    and "1 \<le> 10 * digit_val a + digit_val b" "10 * digit_val a + digit_val b \<le> 31"
  shows "re_matches (Group fmt_d # Lit (CHR ''T'') # items) (a # b # CHR ''T'' # rest)
           = map (\<lambda>(gs, r). ([a, b] # gs, r)) (re_matches items rest)"
  unfolding re_matches.simps(3) fmt_d_def
  apply (insert assms(3,4))
  by (rule digitE[OF assms(1)]; rule digitE[OF assms(2)];
      simp add: digit_val_def digits_def lit_digits lit_same del: re_matches.simps)

lemma fmt_H_match:
  assumes "a \<in> set digits" "b \<in> set digits"
    and "10 * digit_val a + digit_val b \<le> 23"
  shows "re_matches (Group fmt_H # Lit (CHR '':'') # items) (a # b # CHR '':'' # rest)
           = map (\<lambda>(gs, r). ([a, b] # gs, r)) (re_matches items rest)"
  unfolding re_matches.simps(3) fmt_H_def
  apply (insert assms(3))
  by (rule digitE[OF assms(1)]; rule digitE[OF assms(2)];
      simp add: digit_val_def digits_def lit_digits lit_same del: re_matches.simps)

lemma fmt_M_match:
  assumes "a \<in> set digits" "b \<in> set digits"
    and "10 * digit_val a + digit_val b \<le> 59"
  shows "re_matches (Group fmt_M # Lit (CHR '':'') # items) (a # b # CHR '':'' # rest)
           = map (\<lambda>(gs, r). ([a, b] # gs, r)) (re_matches items rest)"
  unfolding re_matches.simps(3) fmt_M_def
  apply (insert assms(3))
  by (rule digitE[OF assms(1)]; rule digitE[OF assms(2)];
      simp add: digit_val_def digits_def lit_digits lit_same del: re_matches.simps)

lemma fmt_S_match:
  assumes "a \<in> set digits" "b \<in> set digits"
    and "10 * digit_val a + digit_val b \<le> 59"
  shows "re_matches (Group fmt_S # Lit (CHR ''Z'') # items) (a # b # CHR ''Z'' # rest)
           = map (\<lambda>(gs, r). ([a, b] # gs, r)) (re_matches items rest)"
  unfolding re_matches.simps(3) fmt_S_def
  apply (insert assms(3))
  by (rule digitE[OF assms(1)]; rule digitE[OF assms(2)];
      simp add: digit_val_def digits_def lit_digits lit_same del: re_matches.simps)


lemma iso_patternE:
  assumes "iso_pattern s"
  obtains y1 y2 y3 y4 m1 m2 d1 d2 H1 H2 M1 M2 S1 S2 where
    "s = [y1, y2, y3, y4, CHR ''-'', m1, m2, CHR ''-'', d1, d2, CHR ''T'', H1, H2, CHR '':'',
          M1, M2, CHR '':'', S1, S2, CHR ''Z'']"
    "y1 \<in> set digits" "y2 \<in> set digits" "y3 \<in> set digits" "y4 \<in> set digits"
    "m1 \<in> set digits" "m2 \<in> set digits" "d1 \<in> set digits" "d2 \<in> set digits"
    "H1 \<in> set digits" "H2 \<in> set digits" "M1 \<in> set digits" "M2 \<in> set digits"
    "S1 \<in> set digits" "S2 \<in> set digits"
    "1 \<le> four_digits y1 y2 y3 y4"
    "1 \<le> two_digits m1 m2" "two_digits m1 m2 \<le> 12"
    "1 \<le> two_digits d1 d2"
    "two_digits d1 d2 \<le> days_in_month (four_digits y1 y2 y3 y4) (two_digits m1 m2)"
    "two_digits H1 H2 \<le> 23" "two_digits M1 M2 \<le> 59" "two_digits S1 S2 \<le> 59"
  using assms unfolding iso_pattern_def
  by (simp split: list.splits)

text \<open>Reading the digits as a number and rendering the number give the digits back.\<close>

lemma digit_char_val:
  assumes "c \<in> set digits"
  shows "digits ! digit_val c = c" "digit_val c < 10"
  by (rule digitE[OF assms]; simp add: digits_def digit_val_def)+

lemma group_int2:
  assumes "a \<in> set digits" "b \<in> set digits"
  shows "group_int [a, b] = two_digits a b"
  using digit_not_sep(5)[OF assms(1)] digit_not_sep(5)[OF assms(2)]
  by (simp add: group_int_def two_digits_def)

lemma group_int4:
  assumes "a \<in> set digits" "b \<in> set digits" "c \<in> set digits" "d \<in> set digits"
  shows "group_int [a, b, c, d] = four_digits a b c d"
  using digit_not_sep(5)[OF assms(1)] digit_not_sep(5)[OF assms(2)]
        digit_not_sep(5)[OF assms(3)] digit_not_sep(5)[OF assms(4)]
  by (simp add: group_int_def four_digits_def)

lemma pad2_two_digits:
  assumes "a \<in> set digits" "b \<in> set digits"
  shows "pad2 (two_digits a b) = [a, b]"
proof -
  have "(10 * x + y) div 10 mod 10 = x" "(10 * x + y) mod 10 = y"
    if "x < 10" "y < 10" for x y :: nat
    using that by simp_all
  then show ?thesis
    using digit_char_val[OF assms(1)] digit_char_val[OF assms(2)]
    by (simp add: pad2_def two_digits_def digit_char_def)
qed

lemma decimal4:
  fixes w x y z :: nat
  assumes "w < 10" "x < 10" "y < 10" "z < 10"
  defines "n \<equiv> 10 * (10 * (10 * w + x) + y) + z"
  shows "n div 1000 mod 10 = w" "n div 100 mod 10 = x" "n div 10 mod 10 = y" "n mod 10 = z"
proof -
  have a: "n div 10 = 10 * (10 * w + x) + y"
    unfolding n_def using assms(4) by (simp del: distrib_left_numeral)
  have "n div 100 = n div 10 div 10"
    using div_mult2_eq[of n 10 10] by simp
  then have b: "n div 100 = 10 * w + x"
    using assms(3) by (simp add: a del: distrib_left_numeral)
  have "n div 1000 = n div 100 div 10"
    using div_mult2_eq[of n 100 10] by simp
  then have c: "n div 1000 = w"
    using assms(2) by (simp add: b del: distrib_left_numeral)
  show "n div 1000 mod 10 = w" using assms(1) by (simp add: c)
  show "n div 100 mod 10 = x" using assms(2) by (simp add: b del: distrib_left_numeral)
  show "n div 10 mod 10 = y" using assms(3) by (simp add: a del: distrib_left_numeral)
  show "n mod 10 = z" unfolding n_def using assms(4) by (simp del: distrib_left_numeral)
qed

lemma pad4_four_digits:
  assumes "a \<in> set digits" "b \<in> set digits" "c \<in> set digits" "d \<in> set digits"
  shows "pad4 (four_digits a b c d) = [a, b, c, d]"
proof -
  note v = digit_char_val[OF assms(1)] digit_char_val[OF assms(2)]
           digit_char_val[OF assms(3)] digit_char_val[OF assms(4)]
  have n: "four_digits a b c d
             = 10 * (10 * (10 * digit_val a + digit_val b) + digit_val c) + digit_val d"
    by (simp add: four_digits_def)
  show ?thesis
    unfolding pad4_def digit_char_def n decimal4[OF v(2,4,6,8)]
    by (simp only: v)
qed

lemma days_in_month_le: "days_in_month y m \<le> 31"
  by (simp add: days_in_month_def)

text \<open>
  A timestamp of the pattern is accepted. Rendering what was parsed gives the year as
  \<open>fmt_year\<close> writes it, then the characters 5 to 10 of the timestamp, a blank and its
  characters 12 to 16; for a year from 1000 on that is \<open>iso_date\<close>.
\<close>

lemma strptime_iso:
  assumes "iso_pattern s"
  shows "\<exists>dt. strptime s = Inr dt
           \<and> strftime lib dt = fmt_year lib (iso_year s) @ drop 4 (iso_date s)"
    and "1000 \<le> iso_year s \<Longrightarrow> fmt_year lib (iso_year s) @ drop 4 (iso_date s) = iso_date s"
proof -
  from assms obtain y1 y2 y3 y4 m1 m2 d1 d2 H1 H2 M1 M2 S1 S2 where
    s: "s = [y1, y2, y3, y4, CHR ''-'', m1, m2, CHR ''-'', d1, d2, CHR ''T'', H1, H2, CHR '':'',
          M1, M2, CHR '':'', S1, S2, CHR ''Z'']"
    and dg: "y1 \<in> set digits" "y2 \<in> set digits" "y3 \<in> set digits" "y4 \<in> set digits"
    "m1 \<in> set digits" "m2 \<in> set digits" "d1 \<in> set digits" "d2 \<in> set digits"
    "H1 \<in> set digits" "H2 \<in> set digits" "M1 \<in> set digits" "M2 \<in> set digits"
    "S1 \<in> set digits" "S2 \<in> set digits"
    and rg: "1 \<le> four_digits y1 y2 y3 y4"
    "1 \<le> two_digits m1 m2" "two_digits m1 m2 \<le> 12"
    "1 \<le> two_digits d1 d2"
    "two_digits d1 d2 \<le> days_in_month (four_digits y1 y2 y3 y4) (two_digits m1 m2)"
    "two_digits H1 H2 \<le> 23" "two_digits M1 M2 \<le> 59" "two_digits S1 S2 \<le> 59"
    by (rule iso_patternE)
  have d31: "two_digits d1 d2 \<le> 31"
    using rg(5) days_in_month_le[of "four_digits y1 y2 y3 y4" "two_digits m1 m2"] by linarith
  note f = fmt_Y_match[OF dg(1-4)]
    fmt_m_match[OF dg(5,6) rg(2,3)[unfolded two_digits_def]]
    fmt_d_match[OF dg(7,8) rg(4)[unfolded two_digits_def] d31[unfolded two_digits_def]]
    fmt_H_match[OF dg(9,10) rg(6)[unfolded two_digits_def]]
    fmt_M_match[OF dg(11,12) rg(7)[unfolded two_digits_def]]
    fmt_S_match[OF dg(13,14) rg(8)[unfolded two_digits_def]]
  have m: "re_matches table_format s
             = [([[y1, y2, y3, y4], [m1, m2], [d1, d2], [H1, H2], [M1, M2], [S1, S2]], [])]"
    unfolding table_format_def s f lit_same by simp
  let ?dt = "\<lparr>dt_year = four_digits y1 y2 y3 y4, dt_month = two_digits m1 m2,
              dt_day = two_digits d1 d2, dt_hour = two_digits H1 H2,
              dt_minute = two_digits M1 M2, dt_second = two_digits S1 S2\<rparr>"
  have p: "strptime s = Inr ?dt"
    using rg by (simp add: strptime_def m group_int2 group_int4 dg)
  have y: "iso_year s = four_digits y1 y2 y3 y4"
    by (simp add: iso_year_def s group_int4 dg)
  have "strftime lib ?dt = fmt_year lib (iso_year s) @ drop 4 (iso_date s)"
    unfolding y by (simp add: strftime_def pad2_two_digits dg iso_date_def s)
  with p show "\<exists>dt. strptime s = Inr dt
           \<and> strftime lib dt = fmt_year lib (iso_year s) @ drop 4 (iso_date s)"
    by blast
  show "fmt_year lib (iso_year s) @ drop 4 (iso_date s) = iso_date s" if "1000 \<le> iso_year s"
    using that unfolding y by (simp add: fmt_year_def pad4_four_digits dg iso_date_def s)
qed

text \<open>
  \<^verbatim>\<open>strptime\<close> accepts more than the pattern: fields without a leading zero and the
  letters in lower case. It rejects a day the month does not have.
\<close>

lemma strptime_unpadded:
  "strptime ''2024-1-5T1:2:3Z''
     = Inr \<lparr>dt_year = 2024, dt_month = 1, dt_day = 5, dt_hour = 1, dt_minute = 2, dt_second = 3\<rparr>"
  by (simp add: strptime_def table_format_def fmt_Y_def fmt_m_def fmt_d_def fmt_H_def fmt_M_def
        fmt_S_def digits_def lower_def group_int_def digit_val_def days_in_month_def is_leap_def)

lemma strptime_lower_case:
  "strptime ''2024-01-15t10:30:00z''
     = Inr \<lparr>dt_year = 2024, dt_month = 1, dt_day = 15, dt_hour = 10, dt_minute = 30,
            dt_second = 0\<rparr>"
  by (simp add: strptime_def table_format_def fmt_Y_def fmt_m_def fmt_d_def fmt_H_def fmt_M_def
        fmt_S_def digits_def lower_def group_int_def digit_val_def days_in_month_def is_leap_def)

lemma strptime_rejects_day:
  "strptime ''2023-02-29T10:30:00Z'' = Inl ValueError"
  by (simp add: strptime_def table_format_def fmt_Y_def fmt_m_def fmt_d_def fmt_H_def fmt_M_def
        fmt_S_def digits_def lower_def group_int_def digit_val_def days_in_month_def is_leap_def)

lemma iso_example: "iso_pattern ''2024-01-15T10:30:00Z''"
  by (simp add: iso_pattern_def digits_def two_digits_def four_digits_def digit_val_def
        days_in_month_def is_leap_def)

lemma iso_year_example: "iso_year ''2024-01-15T10:30:00Z'' = 2024"
  by (simp add: iso_year_def group_int_def digit_val_def)

lemma not_iso_unpadded: "\<not> iso_pattern ''2024-1-5T1:2:3Z''"
  by (simp add: iso_pattern_def)

section \<open>The table\<close>

lemma strptime_error: "strptime s = Inl e \<Longrightarrow> e = ValueError"
  by (auto simp: strptime_def split: list.splits if_splits prod.splits)

lemma py_item_Inr: "py_item x k = Inr v \<Longrightarrow> \<exists>kv. x = JObj kv \<and> map_of kv k = Some v"
  by (cases x) (auto split: option.splits)

lemma py_item_Inl: "py_item x k = Inl e \<Longrightarrow> e = TypeError \<or> e = KeyError k"
  by (cases x) (auto split: option.splits)

lemma py_get_Inl: "py_get x k d = Inl e \<Longrightarrow> e = AttributeError"
  by (cases x) auto

lemma date_cell_Inr:
  assumes "date_cell lib act = Inr d"
  shows "created_at_accepted act"
proof -
  from assms obtain c where c: "py_item act ''created_at'' = Inr c"
    by (auto simp: date_cell_def split: sum.splits)
  then obtain kv where kv: "act = JObj kv" "map_of kv ''created_at'' = Some c"
    using py_item_Inr by blast
  from assms c obtain s where s: "c = JStr s"
    by (cases c) (simp_all add: date_cell_def)
  from assms c s obtain dt where "strptime s = Inr dt"
    by (auto simp: date_cell_def split: sum.splits)
  then show ?thesis
    by (simp add: created_at_accepted_def kv s)
qed

lemma date_cell_Inl:
  assumes "date_cell lib act = Inl e"
  shows "e \<noteq> JSONDecodeError"
proof (cases "py_item act ''created_at''")
  case (Inl e')
  with assms py_item_Inl[OF Inl] show ?thesis by (auto simp: date_cell_def)
next
  case (Inr c)
  show ?thesis
  proof (cases c)
    case (JStr s)
    with assms Inr strptime_error[of s] show ?thesis
      by (auto simp: date_cell_def split: sum.splits)
  qed (use assms Inr in \<open>auto simp: date_cell_def\<close>)
qed

lemma table_row_Inr:
  assumes "table_row lib act = Inr r"
  shows "rowable act"
proof -
  from assms obtain d where d: "date_cell lib act = Inr d"
    by (auto simp: table_row_def split: sum.splits)
  from assms d obtain t where t: "py_item act ''type'' = Inr t"
    by (auto simp: table_row_def split: sum.splits)
  from assms d t obtain rp where rp: "py_item act ''repo'' = Inr rp"
    by (auto simp: table_row_def split: sum.splits)
  from assms d t rp obtain n where n: "py_item rp ''name'' = Inr n"
    by (auto simp: table_row_def split: sum.splits)
  from py_item_Inr[OF t] obtain kv where kv: "act = JObj kv" "map_of kv ''type'' = Some t"
    by blast
  from py_item_Inr[OF rp] kv have r: "map_of kv ''repo'' = Some rp" by auto
  from py_item_Inr[OF n] obtain rkv where rkv: "rp = JObj rkv" "map_of rkv ''name'' = Some n"
    by blast
  show ?thesis
    using date_cell_Inr[OF d] by (simp add: rowable_def has_key_def has_repo_name_def kv r rkv)
qed

lemma table_row_Inl:
  assumes "table_row lib act = Inl e"
  shows "e \<noteq> JSONDecodeError"
  using assms date_cell_Inl py_item_Inl py_get_Inl
  by (fastforce simp: table_row_def split: sum.splits)

lemma rowable_row:
  assumes "rowable act"
  shows "table_row lib act = Inr (row_of lib act)"
proof -
  from assms have ca: "created_at_accepted act" and ty: "has_key act ''type''"
    and rn: "has_repo_name act"
    by (simp_all add: rowable_def)
  from ty obtain kv t where kv: "act = JObj kv" and t: "map_of kv ''type'' = Some t"
    by (cases act) (auto simp: has_key_def)
  from ca kv obtain cv where cv: "map_of kv ''created_at'' = Some cv"
    by (cases "map_of kv ''created_at''") (simp_all add: created_at_accepted_def)
  from ca kv cv obtain s where s: "cv = JStr s"
    by (cases cv) (simp_all add: created_at_accepted_def)
  from ca kv cv s obtain dt where dt: "strptime s = Inr dt"
    by (cases "strptime s") (simp_all add: created_at_accepted_def)
  from rn kv obtain rv where rv: "map_of kv ''repo'' = Some rv"
    by (cases "map_of kv ''repo''") (simp_all add: has_repo_name_def)
  from rn kv rv obtain rkv where rkv: "rv = JObj rkv"
    by (cases rv) (simp_all add: has_repo_name_def)
  from rn kv rv rkv obtain n where n: "map_of rkv ''name'' = Some n"
    by (auto simp: has_repo_name_def)
  have d: "date_cell lib act = Inr (strftime lib dt)"
    by (simp add: date_cell_def kv cv s dt)
  show ?thesis
    unfolding table_row_def d
    by (simp add: kv t rv rkv n row_of_def date_text_def d[unfolded kv] seen_type_def
                  seen_repo_def seen_message_def split: option.splits)
qed

lemma table_ready_row:
  assumes "table_ready act"
  shows "rowable act"
    and "date_cell lib act
           = Inr (fmt_year lib (iso_year (created_at_text act))
                  @ drop 4 (iso_date (created_at_text act)))"
    and "1000 \<le> iso_year (created_at_text act)
           \<Longrightarrow> date_cell lib act = Inr (iso_date (created_at_text act))"
proof -
  from assms obtain kv where act: "act = JObj kv"
    by (cases act) (simp_all add: table_ready_def)
  from assms act obtain cv where cv: "map_of kv ''created_at'' = Some cv"
    by (cases "map_of kv ''created_at''") (simp_all add: table_ready_def)
  from assms act cv obtain s where c: "map_of kv ''created_at'' = Some (JStr s)" "iso_pattern s"
    by (cases cv) (simp_all add: table_ready_def)
  from assms act have ty: "has_key act ''type''" and rn: "has_repo_name act"
    by (simp_all add: table_ready_def has_key_def)
  from strptime_iso(1)[OF c(2), of lib] obtain dt where dt: "strptime s = Inr dt"
    "strftime lib dt = fmt_year lib (iso_year s) @ drop 4 (iso_date s)"
    by blast
  have t: "created_at_text act = s"
    by (simp add: created_at_text_def act c(1))
  show "rowable act"
    using ty rn by (simp add: rowable_def created_at_accepted_def act c(1) dt(1))
  show d: "date_cell lib act
           = Inr (fmt_year lib (iso_year (created_at_text act))
                  @ drop 4 (iso_date (created_at_text act)))"
    by (simp add: date_cell_def act c(1) dt t[unfolded act])
  show "date_cell lib act = Inr (iso_date (created_at_text act))"
    if "1000 \<le> iso_year (created_at_text act)"
    using that strptime_iso(2)[OF c(2), of lib] unfolding d t by simp
qed

lemma format_table_loop_rowable:
  assumes "\<forall>act\<in>set acts. rowable act"
  shows "format_table_loop lib tbl acts = Inr (tbl @ map (row_of lib) acts)"
  using assms by (induction acts arbitrary: tbl) (simp_all add: rowable_row)

lemma format_table_loop_fails:
  assumes "\<exists>act\<in>set acts. \<not> rowable act"
  shows "\<exists>e. format_table_loop lib tbl acts = Inl e \<and> e \<noteq> JSONDecodeError"
  using assms
proof (induction acts arbitrary: tbl)
  case Nil
  then show ?case by simp
next
  case (Cons a acts)
  show ?case
  proof (cases "table_row lib a")
    case (Inl e)
    with table_row_Inl[OF Inl] show ?thesis by simp
  next
    case (Inr r)
    with Cons.prems table_row_Inr[OF Inr] have "\<exists>act\<in>set acts. \<not> rowable act" by auto
    from Cons.IH[OF this, of "tbl @ [r]"] Inr show ?thesis by simp
  qed
qed

lemma format_table_fails:
  assumes "\<exists>act\<in>set acts. \<not> rowable act"
  shows "\<exists>e. format_table lib acts color = Inl e \<and> e \<noteq> JSONDecodeError"
  using format_table_loop_fails[OF assms, of lib table_header]
  by (auto simp: format_table_def)

lemma handle_unexpected:
  "e \<noteq> JSONDecodeError \<Longrightarrow> handle lib e w = (1, print w (''Unexpected error: '' @ str_exc lib e))"
  by (simp add: handle_def)

text \<open>
  Enrichment prints nothing, leaves the cache alone and never exits; what it returns is
  the same events with \<open>repo_details\<close> set, so an event that cannot be made a row
  still cannot.
\<close>

lemma enrich_activity_result:
  assumes "enrich_activity lib urlopen w a = (r, w')"
  shows "w_stdout w' = w_stdout w \<and> w_table w' = w_table w
         \<and> (case r of
               Return a' \<Rightarrow> \<exists>kv d. a = JObj kv \<and> a' = JObj (AList.update ''repo_details'' d kv)
             | Raise e \<Rightarrow> e \<noteq> JSONDecodeError
             | Exit n \<Rightarrow> False)"
proof (cases "py_item a ''repo''")
  case (Inl e)
  with assms py_item_Inl[OF Inl] show ?thesis by (auto simp: enrich_activity_def)
next
  case (Inr rp)
  then obtain kv where kv: "a = JObj kv" "map_of kv ''repo'' = Some rp"
    using py_item_Inr by blast
  show ?thesis
  proof (cases "py_item rp ''name''")
    case (Inl e)
    with assms Inr py_item_Inl[OF Inl] show ?thesis by (auto simp: enrich_activity_def)
  next
    case name: (Inr n)
    from assms show ?thesis
      by (auto simp: enrich_activity_def kv name Let_def send_def)
  qed
qed

lemma enrich_all_result:
  assumes "enrich_all lib urlopen w acts = (r, w')"
  shows "w_stdout w' = w_stdout w \<and> w_table w' = w_table w
         \<and> (case r of
               Return acts' \<Rightarrow>
                 list_all2 (\<lambda>a a'. \<exists>kv d. a = JObj kv
                                      \<and> a' = JObj (AList.update ''repo_details'' d kv)) acts acts'
             | Raise e \<Rightarrow> e \<noteq> JSONDecodeError
             | Exit n \<Rightarrow> False)"
  using assms
proof (induction acts arbitrary: w r w')
  case Nil
  then show ?case by auto
next
  case (Cons a acts)
  obtain r1 w1 where e1: "enrich_activity lib urlopen w a = (r1, w1)"
    by (cases "enrich_activity lib urlopen w a")
  note h1 = enrich_activity_result[OF e1]
  show ?case
  proof (cases r1)
    case (Return a')
    obtain r2 w2 where e2: "enrich_all lib urlopen w1 acts = (r2, w2)"
      by (cases "enrich_all lib urlopen w1 acts")
    note h2 = Cons.IH[OF e2]
    from Cons.prems e1 Return e2 h1 h2 show ?thesis
      by (cases r2) auto
  next
    case (Raise e)
    with Cons.prems e1 h1 show ?thesis by auto
  next
    case (Exit n)
    with h1 show ?thesis by simp
  qed
qed

lemma rowable_enriched:
  "rowable (JObj (AList.update ''repo_details'' d kv)) = rowable (JObj kv)"
  by (simp add: rowable_def created_at_accepted_def has_key_def has_repo_name_def update_conv')

lemma not_rowable_enriched:
  assumes "list_all2 (\<lambda>a a'. \<exists>kv d. a = JObj kv
                                \<and> a' = JObj (AList.update ''repo_details'' d kv)) acts acts'"
    and "\<exists>act\<in>set acts. \<not> rowable act"
  shows "\<exists>act\<in>set acts'. \<not> rowable act"
  using assms
  by (induction rule: list_all2_induct) (auto simp: rowable_enriched)

lemma table_failure_is_fatal:
  assumes f: "fetch_activities lib urlopen now now' w (arg_username a) (arg_token a)
                (arg_no_cache a) = (Return activities, w1)"
    and m: "main_filtered activities (arg_types a) (arg_repos a) (arg_limit a) = Inr acts"
    and t: "arg_format a = ''table''"
    and n: "\<exists>act\<in>set acts. \<not> rowable act"
  shows "\<exists>e w2. main lib urlopen now now' w a
                  = (1, print w2 (''Unexpected error: '' @ str_exc lib e))
               \<and> w_stdout w2 = w_stdout w1 \<and> w_table w2 = w_table w1"
proof (cases "arg_enrich a")
  case False
  from format_table_fails[OF n, of lib "arg_color a"]
  obtain e where e: "format_table lib acts (arg_color a) = Inl e" "e \<noteq> JSONDecodeError"
    by blast
  have "main lib urlopen now now' w a = (1, print w1 (''Unexpected error: '' @ str_exc lib e))"
    using False by (simp add: main_def f m t format_output_def e handle_unexpected)
  then show ?thesis by blast
next
  case True
  obtain r w2 where en: "enrich_all lib urlopen w1 acts = (r, w2)"
    by (cases "enrich_all lib urlopen w1 acts")
  note h = enrich_all_result[OF en]
  show ?thesis
  proof (cases r)
    case (Return enriched)
    with h n have "\<exists>act\<in>set enriched. \<not> rowable act"
      using not_rowable_enriched by auto
    from format_table_fails[OF this, of lib "arg_color a"]
    obtain e where e: "format_table lib enriched (arg_color a) = Inl e" "e \<noteq> JSONDecodeError"
      by blast
    have "main lib urlopen now now' w a = (1, print w2 (''Unexpected error: '' @ str_exc lib e))"
      using True
      by (simp add: main_def f m t en Return format_output_def e handle_unexpected)
    with h show ?thesis by blast
  next
    case (Raise e)
    with h have e: "e \<noteq> JSONDecodeError" by simp
    have "main lib urlopen now now' w a = (1, print w2 (''Unexpected error: '' @ str_exc lib e))"
      using True by (simp add: main_def f m en Raise handle_unexpected[OF e])
    with h show ?thesis by blast
  next
    case (Exit n)
    with h show ?thesis by simp
  qed
qed

text \<open>
  C6, as the code has it, on text in Latin-1. For every activity whose \<open>created_at\<close> is of
  the pattern \<open>YYYY-MM-DDTHH:MM:SSZ\<close> and that has a \<open>type\<close> and a \<open>repo.name\<close>, the code
  makes a row, and its date cell is the year as the platform writes it followed by
  \<open>-MM-DD HH:MM\<close>; for a year from 1000 on that is the same instant as
  \<open>YYYY-MM-DD HH:MM\<close>. When the code can make a row of every activity, the output is the
  header row (after a newline), the separator row and one row per activity, in order.
  When it cannot for some activity (\<^verbatim>\<open>strptime\<close> does not accept its \<open>created_at\<close>, or
  that, its \<open>type\<close> or its \<open>repo.name\<close> is missing), \<^verbatim>\<open>_format_table\<close> raises, and a
  run that has fetched and filtered this list for the table format, with or without
  enrichment, prints nothing but \<open>Unexpected error\<close> and ends with exit code 1.
\<close>

theorem format_table_rows:
  "(\<forall>act\<in>set acts. table_ready act \<longrightarrow>
        rowable act
        \<and> date_cell lib act
            = Inr (fmt_year lib (iso_year (created_at_text act))
                   @ drop 4 (iso_date (created_at_text act)))
        \<and> (1000 \<le> iso_year (created_at_text act) \<longrightarrow>
             date_cell lib act = Inr (iso_date (created_at_text act))))
   \<and> ((\<forall>act\<in>set acts. rowable act) \<longrightarrow>
        format_table lib acts color
          = Inr (join [CHR 0x0A] (table_header @ map (row_of lib) acts)))
   \<and> ((\<exists>act\<in>set acts. \<not> rowable act) \<longrightarrow>
        (\<exists>e. format_table lib acts color = Inl e)
        \<and> (fetch_activities lib urlopen now now' w (arg_username a) (arg_token a)
              (arg_no_cache a) = (Return activities, w1)
            \<and> main_filtered activities (arg_types a) (arg_repos a) (arg_limit a) = Inr acts
            \<and> arg_format a = ''table'' \<longrightarrow>
            (\<exists>e w2. main lib urlopen now now' w a
                       = (1, print w2 (''Unexpected error: '' @ str_exc lib e))
                    \<and> w_stdout w2 = w_stdout w1 \<and> w_table w2 = w_table w1)))"
proof (intro conjI impI ballI)
  fix act assume r: "table_ready act"
  show "rowable act" by (rule table_ready_row(1)[OF r])
  show "date_cell lib act
            = Inr (fmt_year lib (iso_year (created_at_text act))
                   @ drop 4 (iso_date (created_at_text act)))"
    by (rule table_ready_row(2)[OF r])
  show "date_cell lib act = Inr (iso_date (created_at_text act))"
    if "1000 \<le> iso_year (created_at_text act)"
    by (rule table_ready_row(3)[OF r that])
next
  assume "\<forall>act\<in>set acts. rowable act"
  then show "format_table lib acts color
          = Inr (join [CHR 0x0A] (table_header @ map (row_of lib) acts))"
    by (simp add: format_table_def format_table_loop_rowable)
next
  assume "\<exists>act\<in>set acts. \<not> rowable act"
  from format_table_fails[OF this]
  show "\<exists>e. format_table lib acts color = Inl e" by blast
next
  assume n: "\<exists>act\<in>set acts. \<not> rowable act"
    and "fetch_activities lib urlopen now now' w (arg_username a) (arg_token a)
              (arg_no_cache a) = (Return activities, w1)
            \<and> main_filtered activities (arg_types a) (arg_repos a) (arg_limit a) = Inr acts
            \<and> arg_format a = ''table''"
  then show "\<exists>e w2. main lib urlopen now now' w a
                       = (1, print w2 (''Unexpected error: '' @ str_exc lib e))
                    \<and> w_stdout w2 = w_stdout w1 \<and> w_table w2 = w_table w1"
    using table_failure_is_fatal[of lib urlopen now now' w a activities w1 acts] by blast
qed

text \<open>
  The date cells of a timestamp without leading zeros, and of the year 999 on a platform
  whose C library writes it as 999.
\<close>

lemma date_cell_unpadded:
  "date_cell example_lib
      (JObj [(''created_at'', JStr ''2024-1-5T1:2:3Z''), (''type'', JStr ''PushEvent''),
             (''repo'', JObj [(''name'', JStr ''a/b'')])])
     = Inr ''2024-01-05 01:02''"
  by (simp add: date_cell_def strptime_unpadded strftime_def fmt_year_def pad2_def pad4_def
        digit_char_def digits_def)

lemma date_cell_year_999:
  assumes "year_below_1000 lib 999 = ''999''"
  shows "date_cell lib (JObj [(''created_at'', JStr ''0999-01-01T00:00:00Z'')])
           = Inr ''999-01-01 00:00''"
proof -
  have "strptime ''0999-01-01T00:00:00Z''
          = Inr \<lparr>dt_year = 999, dt_month = 1, dt_day = 1, dt_hour = 0, dt_minute = 0,
                 dt_second = 0\<rparr>"
    by (simp add: strptime_def table_format_def fmt_Y_def fmt_m_def fmt_d_def fmt_H_def
          fmt_M_def fmt_S_def digits_def lower_def group_int_def digit_val_def
          days_in_month_def is_leap_def)
  then show ?thesis
    using assms
    by (simp add: date_cell_def strftime_def fmt_year_def pad2_def digit_char_def digits_def)
qed

text \<open>
  C6 as stated fails: \<open>2024-1-5T1:2:3Z\<close> is not of the pattern, yet \<^verbatim>\<open>strptime\<close>
  accepts it and the table is rendered, with the date cell \<open>2024-01-05 01:02\<close>.
\<close>

theorem unpadded_timestamp_is_rendered:
  "\<not> iso_pattern ''2024-1-5T1:2:3Z''
   \<and> format_table example_lib
        [JObj [(''created_at'', JStr ''2024-1-5T1:2:3Z''), (''type'', JStr ''PushEvent''),
               (''repo'', JObj [(''name'', JStr ''a/b'')])]] False
      = Inr (CHR 0x0A # ''| Date | Type | Repository | Details |'' @ [CHR 0x0A]
             @ ''|------|------|------------|---------|'' @ [CHR 0x0A]
             @ ''| 2024-01-05 01:02 | PushEvent | a/b |  |'')"
  unfolding format_table_def format_table_loop.simps table_row_def date_cell_unpadded
  by (simp add: not_iso_unpadded table_header_def py_format_def)

text \<open>
  C6 on the timestamp of the specification's example, and on a list with a \<open>created_at\<close>
  that is no timestamp.
\<close>

theorem format_table_rows_witness:
  "table_ready (JObj [(''created_at'', JStr ''2024-01-15T10:30:00Z''), (''type'', JStr ''PushEvent''),
                      (''repo'', JObj [(''name'', JStr ''a/b'')])])
   \<and> 1000 \<le> iso_year ''2024-01-15T10:30:00Z''
   \<and> date_cell example_lib
        (JObj [(''created_at'', JStr ''2024-01-15T10:30:00Z''), (''type'', JStr ''PushEvent''),
               (''repo'', JObj [(''name'', JStr ''a/b'')])])
       = Inr ''2024-01-15 10:30''
   \<and> format_table example_lib
        [JObj [(''created_at'', JStr ''2024-01-15T10:30:00Z''), (''type'', JStr ''PushEvent''),
               (''repo'', JObj [(''name'', JStr ''a/b'')])]] False
       = Inr (CHR 0x0A # ''| Date | Type | Repository | Details |'' @ [CHR 0x0A]
              @ ''|------|------|------------|---------|'' @ [CHR 0x0A]
              @ ''| 2024-01-15 10:30 | PushEvent | a/b |  |'')
   \<and> \<not> rowable (JObj [(''created_at'', JStr ''yesterday''), (''type'', JStr ''PushEvent''),
                      (''repo'', JObj [(''name'', JStr ''a/b'')])])
   \<and> (\<exists>e. format_table example_lib
              [JObj [(''created_at'', JStr ''2024-01-15T10:30:00Z''), (''type'', JStr ''PushEvent''),
                     (''repo'', JObj [(''name'', JStr ''a/b'')])],
               JObj [(''created_at'', JStr ''yesterday''), (''type'', JStr ''PushEvent''),
                     (''repo'', JObj [(''name'', JStr ''a/b'')])]] False
            = Inl e)"
proof -
  let ?e1 = "JObj [(''created_at'', JStr ''2024-01-15T10:30:00Z''), (''type'', JStr ''PushEvent''),
                   (''repo'', JObj [(''name'', JStr ''a/b'')])]"
  let ?e2 = "JObj [(''created_at'', JStr ''yesterday''), (''type'', JStr ''PushEvent''),
                   (''repo'', JObj [(''name'', JStr ''a/b'')])]"
  have r: "table_ready ?e1"
    by (simp add: table_ready_def iso_example has_repo_name_def)
  have y: "1000 \<le> iso_year ''2024-01-15T10:30:00Z''"
    by (simp add: iso_year_example)
  have c: "created_at_text ?e1 = ''2024-01-15T10:30:00Z''"
    by (simp add: created_at_text_def)
  have "strptime ''yesterday'' = Inl ValueError"
    by (simp add: strptime_def table_format_def fmt_Y_def digits_def)
  then have n: "\<not> rowable ?e2"
    by (simp add: rowable_def created_at_accepted_def)
  note t1 = format_table_rows[where acts = "[?e1]" and lib = example_lib and color = False]
  note t2 = format_table_rows[where acts = "[?e1, ?e2]" and lib = example_lib and color = False]
  have i: "?e1 \<in> set [?e1]" by simp
  from t1[THEN conjunct1, THEN bspec, OF i] r
  have a1: "rowable ?e1
      \<and> (1000 \<le> iso_year (created_at_text ?e1) \<longrightarrow>
             date_cell example_lib ?e1 = Inr (iso_date (created_at_text ?e1)))"
    by blast
  then have ro: "rowable ?e1" by blast
  from a1 y have d: "date_cell example_lib ?e1 = Inr ''2024-01-15 10:30''"
    unfolding c by (simp add: iso_date_def)
  have f: "format_table example_lib [?e1] False
       = Inr (CHR 0x0A # ''| Date | Type | Repository | Details |'' @ [CHR 0x0A]
              @ ''|------|------|------------|---------|'' @ [CHR 0x0A]
              @ ''| 2024-01-15 10:30 | PushEvent | a/b |  |'')"
    using t1[THEN conjunct2, THEN conjunct1] ro
    by (simp add: table_header_def row_of_def date_text_def d seen_type_def seen_repo_def
          seen_message_def py_format_def)
  have "\<exists>act\<in>set [?e1, ?e2]. \<not> rowable act"
    using n by simp
  with t2[THEN conjunct2, THEN conjunct2]
  have g: "\<exists>e. format_table example_lib [?e1, ?e2] False = Inl e"
    by blast
  from r y d f n g show ?thesis by blast
qed

section \<open>Text mode\<close>

text \<open>
  Without colour every line is \<open>- <type>: <message>\<close>; with colour the three event types
  of the dictionary are wrapped in their sequence and the reset sequence, and a type that
  is no key of the dictionary is not wrapped.
\<close>

lemma text_line_without_color:
  assumes "act = JObj kv" "map_of kv ''type'' = Some t"
  shows "text_line lib False act
           = Inr (''- '' @ py_format lib t @ '': '' @ py_format lib (seen_message act))"
  using assms by (simp add: text_line_def seen_message_def split: option.splits)

lemma text_line_assigned_color:
  assumes "act = JObj kv" "map_of kv ''type'' = Some (JStr t)"
    and "t \<in> {''PushEvent'', ''PullRequestEvent'', ''IssuesEvent''}"
  shows "text_line lib True act
           = Inr (colors_item t @ ''- '' @ t @ '': '' @ py_format lib (seen_message act)
                  @ CHR 0x1B # ''[0m'')"
    and "colors_item ''PushEvent'' = CHR 0x1B # ''[92m''"
    and "colors_item ''PullRequestEvent'' = CHR 0x1B # ''[94m''"
    and "colors_item ''IssuesEvent'' = CHR 0x1B # ''[93m''"
  using assms
  by (auto simp: text_line_def seen_message_def py_format_def colors_item_def colors_def
           split: option.splits)

lemma text_line_other_type:
  assumes "act = JObj kv" "map_of kv ''type'' = Some (JStr t)"
    and "t \<notin> {''PushEvent'', ''PullRequestEvent'', ''IssuesEvent'', ''reset''}"
  shows "text_line lib color act
           = Inr (''- '' @ t @ '': '' @ py_format lib (seen_message act))"
proof -
  have "in_colors (JStr t) = Inr False"
    using assms(3) by (simp add: colors_def)
  then show ?thesis
    using assms(1,2)
    by (simp add: text_line_def seen_message_def py_format_def Let_def split: option.splits)
qed

text \<open>
  C5 fails on the code for the type \<open>reset\<close>: it is not one of the three types with an
  assigned colour, but it is a key of \<^verbatim>\<open>colors\<close>, so with colour its line is wrapped
  in two reset sequences; without colour it is not.
\<close>

theorem reset_type_is_wrapped:
  "format_text lib [JObj [(''type'', JStr ''reset'')]] True
     = Inr (CHR 0x1B # ''[0m'' @ ''- reset: '' @ CHR 0x1B # ''[0m'')
   \<and> format_text lib [JObj [(''type'', JStr ''reset'')]] False = Inr ''- reset: ''"
  by (simp add: format_text_def text_line_def py_format_def colors_item_def colors_def)

end
